theory Spec2Isabelle
  imports Main
begin

section \<open>Python values, exceptions and the primitives the pipeline uses\<close>

text \<open>
  The pipeline of \<^verbatim>\<open>dashboard_agent.py\<close> moves untyped Python values between its stages:
  what a tool returns, what \<^verbatim>\<open>json.loads\<close> produces, the content of a message.
  They are the JSON-shaped values below; a dict is an association list with distinct
  keys, read with \<open>map_of\<close>. Numbers are integers here: no stage computes with them.
\<close>

datatype pyval =
    PNone
  | PBool bool
  | PInt int
  | PStr string
  | PList "pyval list"
  | PDict "(string \<times> pyval) list"

text \<open>
  Exceptions, every one a subclass of Python's \<^verbatim>\<open>Exception\<close> with its message.
  \<open>StopIteration\<close> is what \<^verbatim>\<open>next\<close> raises on an exhausted generator,
  \<open>JSONDecodeError\<close> what \<^verbatim>\<open>json.loads\<close> raises on text that is not JSON,
  \<open>RecursionError\<close> what it raises on text nested too deep,
  \<open>GraphRecursionError\<close> what the graph runner raises at its recursion limit, and
  \<open>ExternalError\<close> stands for whatever an external capability (a dataset tool, the
  language model service) raised.
\<close>

datatype exn =
    RuntimeError string
  | ValueError string
  | TypeError string
  | AttributeError string
  | KeyError string
  | IndexError string
  | StopIteration
  | JSONDecodeError string
  | RecursionError string
  | GraphRecursionError
  | ExternalError string

definition sq :: "string \<Rightarrow> string" where
  "sq s = CHR 0x27 # s @ [CHR 0x27]"

fun exn_str :: "exn \<Rightarrow> string" where
  "exn_str (RuntimeError m) = m"
| "exn_str (ValueError m) = m"
| "exn_str (TypeError m) = m"
| "exn_str (AttributeError m) = m"
| "exn_str (KeyError k) = sq k"
| "exn_str (IndexError m) = m"
| "exn_str StopIteration = []"
| "exn_str (JSONDecodeError m) = m"
| "exn_str (RecursionError m) = m"
| "exn_str GraphRecursionError = ''Recursion limit reached without hitting a stop condition''"
| "exn_str (ExternalError m) = m"

fun type_name :: "pyval \<Rightarrow> string" where
  "type_name PNone = ''NoneType''"
| "type_name (PBool _) = ''bool''"
| "type_name (PInt _) = ''int''"
| "type_name (PStr _) = ''str''"
| "type_name (PList _) = ''list''"
| "type_name (PDict _) = ''dict''"

text \<open>Truthiness, and \<^verbatim>\<open>a or b\<close>.\<close>

fun truthy :: "pyval \<Rightarrow> bool" where
  "truthy PNone = False"
| "truthy (PBool b) = b"
| "truthy (PInt i) = (i \<noteq> 0)"
| "truthy (PStr s) = (s \<noteq> [])"
| "truthy (PList xs) = (xs \<noteq> [])"
| "truthy (PDict kvs) = (kvs \<noteq> [])"

definition py_or :: "pyval \<Rightarrow> pyval \<Rightarrow> pyval" where
  "py_or a b = (if truthy a then a else b)"

text \<open>
  \<^verbatim>\<open>for x in v\<close>: a list gives its items, a string its characters, a dict its keys;
  anything else raises \<^verbatim>\<open>TypeError\<close>.
\<close>

fun py_iter :: "pyval \<Rightarrow> exn + pyval list" where
  "py_iter (PList xs) = Inr xs"
| "py_iter (PStr s) = Inr (map (\<lambda>c. PStr [c]) s)"
| "py_iter (PDict kvs) = Inr (map (\<lambda>k. PStr k) (rev (remdups (rev (map fst kvs)))))"
| "py_iter v = Inl (TypeError (sq (type_name v) @ '' object is not iterable''))"

text \<open>\<^verbatim>\<open>v[k]\<close> with a string key \<open>k\<close>.\<close>

fun py_getitem :: "pyval \<Rightarrow> string \<Rightarrow> exn + pyval" where
  "py_getitem (PDict kvs) k =
     (case map_of kvs k of None \<Rightarrow> Inl (KeyError k) | Some v \<Rightarrow> Inr v)"
| "py_getitem (PList xs) k =
     Inl (TypeError ''list indices must be integers or slices, not str'')"
| "py_getitem (PStr s) k = Inl (TypeError ''string indices must be integers'')"
| "py_getitem v k = Inl (TypeError (sq (type_name v) @ '' object is not subscriptable''))"

text \<open>\<^verbatim>\<open>v.get(k, d)\<close>: only a dict has the method.\<close>

fun py_get :: "pyval \<Rightarrow> string \<Rightarrow> pyval \<Rightarrow> exn + pyval" where
  "py_get (PDict kvs) k d = Inr (case map_of kvs k of None \<Rightarrow> d | Some v \<Rightarrow> v)"
| "py_get v k d =
     Inl (AttributeError (sq (type_name v) @ '' object has no attribute '' @ sq ''get''))"

text \<open>
  \<^verbatim>\<open>k in v\<close> for a string \<open>k\<close>: key membership in a dict, element membership in a
  list, substring test in a string, \<^verbatim>\<open>TypeError\<close> otherwise.
\<close>

fun starts_with :: "string \<Rightarrow> string \<Rightarrow> bool" where
  "starts_with [] s = True"
| "starts_with (x # xs) [] = False"
| "starts_with (x # xs) (y # ys) = (x = y \<and> starts_with xs ys)"

fun str_contains :: "string \<Rightarrow> string \<Rightarrow> bool" where
  "str_contains k [] = (k = [])"
| "str_contains k (c # cs) = (starts_with k (c # cs) \<or> str_contains k cs)"

fun py_in :: "string \<Rightarrow> pyval \<Rightarrow> exn + bool" where
  "py_in k (PDict kvs) = Inr (map_of kvs k \<noteq> None)"
| "py_in k (PList xs) = Inr (PStr k \<in> set xs)"
| "py_in k (PStr s) = Inr (str_contains k s)"
| "py_in k v = Inl (TypeError (''argument of type '' @ sq (type_name v) @ '' is not iterable''))"

text \<open>\<^verbatim>\<open>xs[-1]\<close>.\<close>

definition py_last :: "'a list \<Rightarrow> exn + 'a" where
  "py_last xs = (if xs = [] then Inl (IndexError ''list index out of range'') else Inr (last xs))"

text \<open>
  \<^verbatim>\<open>json.loads\<close> and \<^verbatim>\<open>json.dumps\<close> are library functions: the model takes
  them as parameters. \<open>loads\<close> gives for a text either the parsed value or the exception
  \<^verbatim>\<open>json.loads\<close> raises on it: a \<^verbatim>\<open>JSONDecodeError\<close> on text that is not JSON, and
  also a \<^verbatim>\<open>RecursionError\<close> on text nested too deep or a \<^verbatim>\<open>ValueError\<close> on an
  integer with too many digits. \<^verbatim>\<open>json.loads\<close> of a value that is not a string raises
  \<^verbatim>\<open>TypeError\<close>. \<open>dumps\<close> takes the \<^verbatim>\<open>ensure_ascii\<close> flag.
\<close>

definition json_loads :: "(string \<Rightarrow> exn + pyval) \<Rightarrow> pyval \<Rightarrow> exn + pyval" where
  "json_loads parse v =
     (case v of
        PStr s \<Rightarrow> parse s
      | _ \<Rightarrow> Inl (TypeError (''the JSON object must be str, bytes or bytearray, not ''
                 @ type_name v)))"

section \<open>Messages, tools, the pipeline state\<close>

datatype message = HumanMessage pyval | AIMessage pyval

fun content :: "message \<Rightarrow> pyval" where
  "content (HumanMessage c) = c"
| "content (AIMessage c) = c"

text \<open>
  A tool of the dataset tool provider: its name and what \<^verbatim>\<open>ainvoke\<close> does with the
  argument dict, a result or an exception.
\<close>

record base_tool =
  name :: string
  ainvoke :: "pyval \<Rightarrow> exn + pyval"

record pipeline_state =
  messages :: "message list"
  csv_file_path :: string
  tool :: "base_tool list"

text \<open>
  What a node returns: a dict from keys to values. The values the three nodes return are
  message lists and strings; a tool list is what the \<^verbatim>\<open>tool\<close> key of the state holds.
\<close>

datatype chan_val = VMessages "message list" | VStr string | VTools "base_tool list"

type_synonym node_output = "(string \<times> chan_val) list"

text \<open>
  The two module-level instruction texts name the two calls of the language model; the
  model service is a parameter, from the instructions and the user payload to the
  content of its reply (a message, which has a string content), or an exception.
\<close>

datatype instructions =
    INSTRUCTIONS_CSV_ANALYSIS_AND_SCHEMA
  | INSTRUCTIONS_RENDER_DASHBOARD_FROM_DATA

record services =
  loads :: "string \<Rightarrow> exn + pyval"
  dumps :: "bool \<Rightarrow> pyval \<Rightarrow> string"
  llm :: "instructions \<Rightarrow> string \<Rightarrow> exn + string"

text \<open>
  \<^verbatim>\<open>next(t for t in tools if t.name == n)\<close> raises \<^verbatim>\<open>StopIteration\<close> when no
  tool has the name; with the default \<^verbatim>\<open>None\<close> it returns \<^verbatim>\<open>None\<close>.
\<close>

definition next_tool :: "base_tool list \<Rightarrow> string \<Rightarrow> exn + base_tool" where
  "next_tool tools n =
     (case find (\<lambda>t. name t = n) tools of None \<Rightarrow> Inl StopIteration | Some t \<Rightarrow> Inr t)"

definition next_tool_default :: "base_tool list \<Rightarrow> string \<Rightarrow> base_tool option" where
  "next_tool_default tools n = find (\<lambda>t. name t = n) tools"

text \<open>
  The nodes are coroutines (\<^verbatim>\<open>async def\<close>): a \<^verbatim>\<open>StopIteration\<close> that leaves the
  body of a coroutine reaches the caller as a \<^verbatim>\<open>RuntimeError\<close>.
\<close>

definition coroutine :: "exn + 'a \<Rightarrow> exn + 'a" where
  "coroutine r =
     (case r of
        Inl StopIteration \<Rightarrow> Inl (RuntimeError ''coroutine raised StopIteration'')
      | _ \<Rightarrow> r)"

text \<open>Sequencing of steps that may raise: the first exception ends the sequence.\<close>

definition bindE :: "exn + 'a \<Rightarrow> ('a \<Rightarrow> exn + 'b) \<Rightarrow> exn + 'b" where
  "bindE r f = (case r of Inl e \<Rightarrow> Inl e | Inr x \<Rightarrow> f x)"

section \<open>The Metric Executor: \<^verbatim>\<open>node_execute_sql\<close>\<close>

text \<open>
  The body of the \<^verbatim>\<open>for m in key_metrics\<close> loop: read \<^verbatim>\<open>m['sql']\<close> (for the
  \<^verbatim>\<open>print\<close>), call the tool, then build the record from \<^verbatim>\<open>m["metric"]\<close>,
  \<^verbatim>\<open>m["description"]\<close>, \<^verbatim>\<open>m["visualization_type"]\<close> and \<^verbatim>\<open>data or []\<close>.
\<close>

definition exec_args :: "string \<Rightarrow> pyval \<Rightarrow> pyval" where
  "exec_args path q =
     PDict [(''file_locations'', PList [PStr path]), (''query'', q), (''file_type'', PStr ''csv'')]"

definition execute_metric :: "base_tool \<Rightarrow> string \<Rightarrow> pyval \<Rightarrow> exn + pyval" where
  "execute_metric exec_tool path m =
     bindE (py_getitem m ''sql'') (\<lambda>q.
     bindE (ainvoke exec_tool (exec_args path q)) (\<lambda>data.
     bindE (py_getitem m ''metric'') (\<lambda>mt.
     bindE (py_getitem m ''description'') (\<lambda>ds.
     bindE (py_getitem m ''visualization_type'') (\<lambda>vt.
       Inr (PDict [(''metric'', mt), (''description'', ds), (''visualization_type'', vt),
                   (''data'', py_or data (PList []))]))))))"

text \<open>The loop, with the list \<^verbatim>\<open>results\<close> it appends to.\<close>

fun execute_loop :: "base_tool \<Rightarrow> string \<Rightarrow> pyval list \<Rightarrow> pyval list \<Rightarrow> exn + pyval list" where
  "execute_loop exec_tool path [] results = Inr results"
| "execute_loop exec_tool path (m # ms) results =
     bindE (execute_metric exec_tool path m) (\<lambda>r.
       execute_loop exec_tool path ms (results @ [r]))"

text \<open>
  From the parsed payload on: \<^verbatim>\<open>payload.get("key_metrics", [])\<close>, the loop, the
  returned dict.
\<close>

definition execute_plan :: "base_tool \<Rightarrow> string \<Rightarrow> pyval \<Rightarrow> exn + node_output" where
  "execute_plan exec_tool path payload =
     bindE (py_get payload ''key_metrics'' (PList [])) (\<lambda>key_metrics.
     bindE (py_iter key_metrics) (\<lambda>ms.
     bindE (execute_loop exec_tool path ms []) (\<lambda>results.
       Inr [(''messages'', VMessages [AIMessage (PList results)])])))"

text \<open>
  The parse of the last message's content, inside its own \<^verbatim>\<open>try\<close>: every exception
  of \<^verbatim>\<open>json.loads\<close> is raised again as the \<^verbatim>\<open>ValueError\<close> of the source.
\<close>

definition parse_payload :: "services \<Rightarrow> message \<Rightarrow> exn + pyval" where
  "parse_payload sv msg =
     (case json_loads (loads sv) (content msg) of
        Inl e \<Rightarrow> Inl (ValueError (''Failed to parse AIMessage content as JSON: '' @ exn_str e))
      | Inr payload \<Rightarrow> Inr payload)"

definition node_execute_sql_body :: "services \<Rightarrow> pipeline_state \<Rightarrow> exn + node_output" where
  "node_execute_sql_body sv state =
     bindE (next_tool (tool state) ''execute_polars_sql'') (\<lambda>exec_tool.
     bindE (py_last (messages state)) (\<lambda>msg.
     bindE (parse_payload sv msg) (\<lambda>payload.
       execute_plan exec_tool (csv_file_path state) payload)))"

definition node_execute_sql :: "services \<Rightarrow> pipeline_state \<Rightarrow> exn + node_output" where
  "node_execute_sql sv state = coroutine (node_execute_sql_body sv state)"

section \<open>The Schema Planner: \<^verbatim>\<open>node_schema\<close>\<close>

fun map_exn :: "('a \<Rightarrow> exn + 'b) \<Rightarrow> 'a list \<Rightarrow> exn + 'b list" where
  "map_exn f [] = Inr []"
| "map_exn f (x # xs) = bindE (f x) (\<lambda>y. bindE (map_exn f xs) (\<lambda>ys. Inr (y # ys)))"

text \<open>
  The list comprehension that normalizes what \<^verbatim>\<open>get_schema\<close> returned: a string item
  is parsed, any other item is kept. Whatever it raises becomes the \<^verbatim>\<open>ValueError\<close>
  of the source.
\<close>

definition normalize_item :: "services \<Rightarrow> pyval \<Rightarrow> exn + pyval" where
  "normalize_item sv item =
     (case item of PStr s \<Rightarrow> json_loads (loads sv) item | _ \<Rightarrow> Inr item)"

definition normalize_schema :: "services \<Rightarrow> pyval \<Rightarrow> exn + pyval list" where
  "normalize_schema sv wrapped =
     (case bindE (py_iter wrapped) (map_exn (normalize_item sv)) of
        Inl e \<Rightarrow> Inl (ValueError (''Failed to parse schema items: '' @ exn_str e))
      | Inr schema_list \<Rightarrow> Inr schema_list)"

text \<open>
  The two sanity checks. \<open>column_ok\<close> is the condition under \<^verbatim>\<open>all\<close>:
  \<^verbatim>\<open>isinstance(x, dict) and "name" in x and "dtype" in x\<close>.
\<close>

fun column_ok :: "pyval \<Rightarrow> bool" where
  "column_ok (PDict kvs) = (map_of kvs ''name'' \<noteq> None \<and> map_of kvs ''dtype'' \<noteq> None)"
| "column_ok v = False"

definition check_schema :: "pyval list \<Rightarrow> exn + unit" where
  "check_schema schema_list =
     (if schema_list = [] then Inl (ValueError ''Empty schema returned'')
      else if \<not> list_all column_ok (take 2 schema_list)
        then Inl (ValueError ''Schema items missing required keys after normalization'')
      else Inr ())"

text \<open>The loop \<^verbatim>\<open>for k in ("key_metrics", "dashboard_components")\<close>.\<close>

fun require_keys :: "string list \<Rightarrow> pyval \<Rightarrow> exn + unit" where
  "require_keys [] spec = Inr ()"
| "require_keys (k # ks) spec =
     bindE (py_in k spec) (\<lambda>present.
       if \<not> present then Inl (ValueError (''Analysis JSON missing required key: '' @ k))
       else require_keys ks spec)"

definition minimal_spec :: "pyval \<Rightarrow> exn + pyval" where
  "minimal_spec spec =
     bindE (py_get spec ''key_metrics'' (PList [])) (\<lambda>km.
     bindE (py_get spec ''dashboard_components'' PNone) (\<lambda>dc.
       Inr (PDict [(''key_metrics'', km), (''dashboard_components'', dc)])))"

text \<open>
  What the planner does with the content of the model's reply: the emptiness check,
  the parse (only a \<^verbatim>\<open>JSONDecodeError\<close> is turned into the \<^verbatim>\<open>ValueError\<close>), the
  required keys, the minimal spec and the returned dict.
\<close>

definition parse_analysis :: "services \<Rightarrow> string \<Rightarrow> exn + node_output" where
  "parse_analysis sv analysis =
     (if analysis = [] then Inl (RuntimeError ''LLM returned empty content for schema analysis.'')
      else
        bindE (case json_loads (loads sv) (PStr analysis) of
                 Inl (JSONDecodeError je) \<Rightarrow>
                   Inl (ValueError (''Failed to parse analysis JSON: '' @ je))
               | r \<Rightarrow> r) (\<lambda>spec.
        bindE (require_keys [''key_metrics'', ''dashboard_components''] spec) (\<lambda>_.
        bindE (minimal_spec spec) (\<lambda>ms.
          Inr [(''messages'', VMessages [AIMessage (PStr (dumps sv False ms))])]))))"

text \<open>From the checked schema on: the question, the model call, the reply.\<close>

definition plan_metrics :: "services \<Rightarrow> pipeline_state \<Rightarrow> pyval list \<Rightarrow> exn + node_output" where
  "plan_metrics sv state schema_list =
     bindE (py_last (messages state)) (\<lambda>msg.
     bindE (llm sv INSTRUCTIONS_CSV_ANALYSIS_AND_SCHEMA
              (dumps sv False (PDict [(''schema'', PList schema_list),
                                      (''question'', content msg)]))) (\<lambda>analysis.
       parse_analysis sv analysis))"

definition schema_args :: "string \<Rightarrow> pyval" where
  "schema_args path = PDict [(''file_location'', PStr path), (''file_type'', PStr ''csv'')]"

text \<open>The body of the \<^verbatim>\<open>try\<close> block of \<^verbatim>\<open>node_schema\<close>.\<close>

definition node_schema_try :: "services \<Rightarrow> pipeline_state \<Rightarrow> exn + node_output" where
  "node_schema_try sv state =
     (case next_tool_default (tool state) ''get_schema'' of
        None \<Rightarrow> Inl (RuntimeError ''get_schema tool not found'')
      | Some get_schema \<Rightarrow>
          bindE (ainvoke get_schema (schema_args (csv_file_path state))) (\<lambda>wrapped.
          bindE (normalize_schema sv wrapped) (\<lambda>schema_list.
          bindE (check_schema schema_list) (\<lambda>_.
            plan_metrics sv state schema_list))))"

text \<open>The \<^verbatim>\<open>except Exception\<close> handler returns the error dict.\<close>

definition error_payload :: "exn \<Rightarrow> node_output" where
  "error_payload e = [(''error'', VStr ''node_schema_failed''), (''details'', VStr (exn_str e))]"

definition node_schema :: "services \<Rightarrow> pipeline_state \<Rightarrow> exn + node_output" where
  "node_schema sv state =
     coroutine (case node_schema_try sv state of
                  Inl e \<Rightarrow> Inr (error_payload e)
                | Inr out \<Rightarrow> Inr out)"

section \<open>The Dashboard Renderer: \<^verbatim>\<open>node_render_html\<close>\<close>

definition node_render_html :: "services \<Rightarrow> pipeline_state \<Rightarrow> exn + node_output" where
  "node_render_html sv state =
     coroutine (
       bindE (py_last (messages state)) (\<lambda>msg.
       bindE (llm sv INSTRUCTIONS_RENDER_DASHBOARD_FROM_DATA
                (dumps sv True (PDict [(''metrics'', content msg)]))) (\<lambda>html_resp.
         Inr [(''messages'', VMessages [AIMessage (PStr html_resp)])])))"

section \<open>The Pipeline Coordinator: \<^verbatim>\<open>build_pipeline_graph\<close>\<close>

text \<open>
  The graph as \<^verbatim>\<open>build_pipeline_graph\<close> builds it: three nodes, three unconditional
  edges, the entry point.
\<close>

type_synonym node_fn = "services \<Rightarrow> pipeline_state \<Rightarrow> exn + node_output"

record graph =
  nodes :: "(string \<times> node_fn) list"
  edges :: "(string \<times> string) list"
  entry_point :: string

definition END :: string where
  "END = ''__end__''"

definition build_pipeline_graph :: graph where
  "build_pipeline_graph =
     \<lparr> nodes = [(''schema'', node_schema), (''execute_sql'', node_execute_sql),
                (''render_html'', node_render_html)],
       edges = [(''schema'', ''execute_sql''), (''execute_sql'', ''render_html''),
                (''render_html'', END)],
       entry_point = ''schema'' \<rparr>"

text \<open>
  Running the compiled graph is the library's part. A node's returned dict updates the
  state key by key: a key of \<^verbatim>\<open>PipelineState\<close> is written, any other key of the dict is
  dropped. How the \<^verbatim>\<open>messages\<close> key combines the old list with the node's list is the
  library's choice from the annotation of the field; the model takes it as the parameter
  \<open>add\<close>.
\<close>

type_synonym reducer = "message list \<Rightarrow> message list \<Rightarrow> message list"

fun write_key :: "reducer \<Rightarrow> pipeline_state \<Rightarrow> string \<times> chan_val \<Rightarrow> pipeline_state" where
  "write_key add st (k, VMessages ms) =
     (if k = ''messages'' then st\<lparr>messages := add (messages st) ms\<rparr> else st)"
| "write_key add st (k, VStr s) =
     (if k = ''csv_file_path'' then st\<lparr>csv_file_path := s\<rparr> else st)"
| "write_key add st (k, VTools ts) =
     (if k = ''tool'' then st\<lparr>tool := ts\<rparr> else st)"

definition apply_update :: "reducer \<Rightarrow> pipeline_state \<Rightarrow> node_output \<Rightarrow> pipeline_state" where
  "apply_update add st out = foldl (write_key add) st out"

text \<open>
  A run enters the current node, applies its update and follows the node's edge, until
  \<open>END\<close>; a node that raises ends the run with its exception. The runner counts its
  steps against a recursion limit (25 unless configured). The run returns the steps it
  made and its result.
\<close>

datatype step = Completed string pipeline_state | Raised string exn

fun entered :: "step \<Rightarrow> string" where
  "entered (Completed n st) = n"
| "entered (Raised n e) = n"

fun run_graph ::
  "reducer \<Rightarrow> services \<Rightarrow> graph \<Rightarrow> nat \<Rightarrow> string \<Rightarrow> pipeline_state
     \<Rightarrow> step list \<times> (exn + pipeline_state)" where
  "run_graph add sv g 0 cur st =
     (if cur = END then ([], Inr st) else ([], Inl GraphRecursionError))"
| "run_graph add sv g (Suc limit) cur st =
     (if cur = END then ([], Inr st)
      else case map_of (nodes g) cur of
        None \<Rightarrow> ([], Inl (KeyError cur))
      | Some node \<Rightarrow>
          (case node sv st of
             Inl e \<Rightarrow> ([Raised cur e], Inl e)
           | Inr out \<Rightarrow>
               (let st' = apply_update add st out in
                case map_of (edges g) cur of
                  None \<Rightarrow> ([Completed cur st'], Inr st')
                | Some nxt \<Rightarrow>
                    (case run_graph add sv g limit nxt st' of
                       (steps, r) \<Rightarrow> (Completed cur st' # steps, r)))))"

definition pipeline_ainvoke ::
  "reducer \<Rightarrow> services \<Rightarrow> pipeline_state \<Rightarrow> step list \<times> (exn + pipeline_state)" where
  "pipeline_ainvoke add sv init_state =
     run_graph add sv build_pipeline_graph 25 (entry_point build_pipeline_graph) init_state"

section \<open>Notions the properties are stated with\<close>

text \<open>The value under a key of a JSON object; nothing else has keys.\<close>

definition field :: "pyval \<Rightarrow> string \<Rightarrow> pyval option" where
  "field v k = (case v of PDict kvs \<Rightarrow> map_of kvs k | _ \<Rightarrow> None)"

text \<open>A MetricPlan as the executor needs it: an object with the four keys it reads.\<close>

definition is_metric_plan :: "pyval \<Rightarrow> bool" where
  "is_metric_plan m =
     list_all (\<lambda>k. field m k \<noteq> None)
       [''sql'', ''metric'', ''description'', ''visualization_type'']"

text \<open>What the dataset tool returns for the query of a plan.\<close>

definition query_result :: "base_tool \<Rightarrow> string \<Rightarrow> pyval \<Rightarrow> exn + pyval" where
  "query_result exec_tool path m =
     bindE (py_getitem m ''sql'') (\<lambda>q. ainvoke exec_tool (exec_args path q))"

text \<open>The record \<open>r\<close> carries the descriptive fields of the plan \<open>m\<close> and its data.\<close>

definition materializes :: "base_tool \<Rightarrow> string \<Rightarrow> pyval \<Rightarrow> pyval \<Rightarrow> bool" where
  "materializes exec_tool path m r =
     (field r ''metric'' = field m ''metric''
      \<and> field r ''description'' = field m ''description''
      \<and> field r ''visualization_type'' = field m ''visualization_type''
      \<and> (case query_result exec_tool path m of
            Inl e \<Rightarrow> False
          | Inr d \<Rightarrow> field r ''data'' = Some (if truthy d then d else PList [])))"

text \<open>
  The exception is the one the executor raises when the content of the last message
  does not parse: the \<^verbatim>\<open>ValueError\<close> whose text starts as in the source.
\<close>

definition is_malformed_plan :: "exn \<Rightarrow> bool" where
  "is_malformed_plan e =
     (case e of
        ValueError m \<Rightarrow> starts_with ''Failed to parse AIMessage content as JSON: '' m
      | _ \<Rightarrow> False)"

text \<open>The nodes a run entered, in order.\<close>

definition entered_nodes :: "step list \<times> (exn + pipeline_state) \<Rightarrow> string list" where
  "entered_nodes run = map entered (fst run)"

text \<open>The states a run went through: the state after each completed node.\<close>

fun completed_states :: "step list \<Rightarrow> pipeline_state list" where
  "completed_states [] = []"
| "completed_states (Completed n st # steps) = st # completed_states steps"
| "completed_states (Raised n e # steps) = completed_states steps"

text \<open>
  The reply the planner receives from the model: the steps of \<^verbatim>\<open>node_schema\<close> up to
  and including the call of the model.
\<close>

definition model_reply :: "services \<Rightarrow> pipeline_state \<Rightarrow> exn + string" where
  "model_reply sv state =
     (case next_tool_default (tool state) ''get_schema'' of
        None \<Rightarrow> Inl (RuntimeError ''get_schema tool not found'')
      | Some get_schema \<Rightarrow>
          bindE (ainvoke get_schema (schema_args (csv_file_path state))) (\<lambda>wrapped.
          bindE (normalize_schema sv wrapped) (\<lambda>schema_list.
          bindE (check_schema schema_list) (\<lambda>_.
          bindE (py_last (messages state)) (\<lambda>msg.
            llm sv INSTRUCTIONS_CSV_ANALYSIS_AND_SCHEMA
              (dumps sv False (PDict [(''schema'', PList schema_list),
                                      (''question'', content msg)])))))))"

section \<open>Test doubles: a dataset tool provider and a model service\<close>

text \<open>
  A one-column dataset, a question, and a model that plans two metrics. The texts are
  JSON; \<open>stub_loads\<close> parses the texts of this section as \<^verbatim>\<open>json.loads\<close> does and
  rejects any other text, \<open>stub_dumps\<close> writes the values the run serializes.
\<close>

definition stub_schema_item :: string where
  \<open>stub_schema_item = ''{"name": "Age", "dtype": "int"}''\<close>

definition stub_question :: string where
  "stub_question = ''trend over age''"

definition stub_plan1 :: pyval where
  "stub_plan1 = PDict [(''metric'', PStr ''m1''), (''description'', PStr ''d1''),
     (''visualization_type'', PStr ''table''), (''visualization_rationale'', PStr ''r1''),
     (''sql'', PStr ''q1'')]"

definition stub_plan2 :: pyval where
  "stub_plan2 = PDict [(''metric'', PStr ''m2''), (''description'', PStr ''d2''),
     (''visualization_type'', PStr ''bar_chart''), (''visualization_rationale'', PStr ''r2''),
     (''sql'', PStr ''q2'')]"

definition stub_analysis :: string where
  \<open>stub_analysis = ''{"domain": "people", "key_metrics": [{"metric": "m1", "description": "d1", "visualization_type": "table", "visualization_rationale": "r1", "sql": "q1"}, {"metric": "m2", "description": "d2", "visualization_type": "bar_chart", "visualization_rationale": "r2", "sql": "q2"}], "dashboard_components": ["charts"]}''\<close>

definition stub_spec :: pyval where
  "stub_spec = PDict [(''domain'', PStr ''people''),
     (''key_metrics'', PList [stub_plan1, stub_plan2]),
     (''dashboard_components'', PList [PStr ''charts''])]"

definition stub_minimal_spec :: pyval where
  "stub_minimal_spec = PDict [(''key_metrics'', PList [stub_plan1, stub_plan2]),
     (''dashboard_components'', PList [PStr ''charts''])]"

definition stub_plan_text :: string where
  \<open>stub_plan_text = ''{"key_metrics": [{"metric": "m1", "description": "d1", "visualization_type": "table", "visualization_rationale": "r1", "sql": "q1"}, {"metric": "m2", "description": "d2", "visualization_type": "bar_chart", "visualization_rationale": "r2", "sql": "q2"}], "dashboard_components": ["charts"]}''\<close>

definition stub_keys_array :: string where
  \<open>stub_keys_array = ''["key_metrics", "dashboard_components"]''\<close>

definition stub_failing_plan_text :: string where
  \<open>stub_failing_plan_text = ''{"key_metrics": [{"sql": "q3"}]}''\<close>

definition stub_loads :: "string \<Rightarrow> exn + pyval" where
  "stub_loads s =
     (if s = stub_schema_item then Inr (PDict [(''name'', PStr ''Age''), (''dtype'', PStr ''int'')])
      else if s = stub_analysis then Inr stub_spec
      else if s = stub_plan_text then Inr stub_minimal_spec
      else if s = stub_keys_array
        then Inr (PList [PStr ''key_metrics'', PStr ''dashboard_components''])
      else if s = ''{}'' then Inr (PDict [])
      else if s = stub_failing_plan_text
        then Inr (PDict [(''key_metrics'', PList [PDict [(''sql'', PStr ''q3'')]])])
      else Inl (JSONDecodeError ''Expecting value: line 1 column 1 (char 0)''))"

definition stub_records :: pyval where
  "stub_records = PList
     [PDict [(''metric'', PStr ''m1''), (''description'', PStr ''d1''),
             (''visualization_type'', PStr ''table''),
             (''data'', PList [PDict [(''Age'', PInt 30)]])],
      PDict [(''metric'', PStr ''m2''), (''description'', PStr ''d2''),
             (''visualization_type'', PStr ''bar_chart''), (''data'', PList [])]]"

definition stub_payload_text :: string where
  \<open>stub_payload_text = ''{"schema": [{"name": "Age", "dtype": "int"}], "question": "trend over age"}''\<close>

definition stub_metrics_text :: string where
  \<open>stub_metrics_text = ''{"metrics": [{"metric": "m1", "description": "d1", "visualization_type": "table", "data": [{"Age": 30}]}, {"metric": "m2", "description": "d2", "visualization_type": "bar_chart", "data": []}]}''\<close>

definition stub_dumps :: "bool \<Rightarrow> pyval \<Rightarrow> string" where
  "stub_dumps ensure_ascii v =
     (if v = stub_minimal_spec then stub_plan_text
      else if v = PDict [(''metrics'', stub_records)] then stub_metrics_text
      else if v = PDict [(''schema'', PList [PDict [(''name'', PStr ''Age''), (''dtype'', PStr ''int'')]]),
                         (''question'', PStr stub_question)] then stub_payload_text
      else ''null'')"

definition stub_html :: string where
  "stub_html = ''<html><body>dashboard</body></html>''"

definition stub_llm :: "instructions \<Rightarrow> string \<Rightarrow> exn + string" where
  "stub_llm i user =
     (case i of
        INSTRUCTIONS_CSV_ANALYSIS_AND_SCHEMA \<Rightarrow> Inr stub_analysis
      | INSTRUCTIONS_RENDER_DASHBOARD_FROM_DATA \<Rightarrow> Inr stub_html)"

definition stub_services :: services where
  "stub_services = \<lparr> loads = stub_loads, dumps = stub_dumps, llm = stub_llm \<rparr>"

text \<open>The same services with a model that replies with the empty string.\<close>

definition silent_services :: services where
  "silent_services = \<lparr> loads = stub_loads, dumps = stub_dumps, llm = (\<lambda>i user. Inr []) \<rparr>"

definition stub_get_schema :: base_tool where
  "stub_get_schema =
     \<lparr> name = ''get_schema'', ainvoke = (\<lambda>args. Inr (PList [PStr stub_schema_item])) \<rparr>"

definition stub_exec_tool :: base_tool where
  "stub_exec_tool =
     \<lparr> name = ''execute_polars_sql'',
       ainvoke = (\<lambda>args.
         if field args ''query'' = Some (PStr ''q1'') then Inr (PList [PDict [(''Age'', PInt 30)]])
         else if field args ''query'' = Some (PStr ''q2'') then Inr (PList [])
         else Inl (ExternalError ''SQL error'')) \<rparr>"

definition stub_state :: pipeline_state where
  "stub_state =
     \<lparr> messages = [HumanMessage (PStr stub_question)],
       csv_file_path = ''/tmp/uploaded_players.csv'',
       tool = [stub_get_schema, stub_exec_tool] \<rparr>"

text \<open>The state the executor sees after the planner, and variants of it.\<close>

definition planned_state :: pipeline_state where
  "planned_state = stub_state\<lparr>messages := [AIMessage (PStr stub_plan_text)]\<rparr>"

definition empty_object_state :: pipeline_state where
  "empty_object_state = stub_state\<lparr>messages := [AIMessage (PStr ''{}'')]\<rparr>"

definition failing_query_state :: pipeline_state where
  "failing_query_state = stub_state\<lparr>messages := [AIMessage (PStr stub_failing_plan_text)]\<rparr>"

definition executed_state :: pipeline_state where
  "executed_state = stub_state\<lparr>messages := [AIMessage stub_records]\<rparr>"

definition rendered_state :: pipeline_state where
  "rendered_state = stub_state\<lparr>messages := [AIMessage (PStr stub_html)]\<rparr>"

definition no_tools_state :: pipeline_state where
  "no_tools_state = stub_state\<lparr>tool := []\<rparr>"

text \<open>A model that replies with a JSON array of the two key names.\<close>

definition array_services :: services where
  "array_services =
     \<lparr> loads = stub_loads, dumps = stub_dumps, llm = (\<lambda>i user. Inr stub_keys_array) \<rparr>"

text \<open>A dataset whose schema tool reports a column with a name and no type.\<close>

definition name_only_state :: pipeline_state where
  "name_only_state =
     stub_state\<lparr>tool :=
       [\<lparr> name = ''get_schema'',
           ainvoke = (\<lambda>args. Inr (PList [PDict [(''name'', PStr ''Age'')]])) \<rparr>,
        stub_exec_tool]\<rparr>"

text \<open>The reducer that replaces the list, and the one that appends to it.\<close>

definition replace_messages :: reducer where
  "replace_messages old new = new"

definition append_messages :: reducer where
  "append_messages old new = old @ new"

section \<open>Properties of the Metric Executor\<close>

lemma py_getitem_field:
  "field m k = Some v \<Longrightarrow> py_getitem m k = Inr v"
  by (cases m) (auto simp: field_def)

lemma execute_metric_materializes:
  assumes "is_metric_plan m" and "query_result t path m = Inr d"
  shows "\<exists>r. execute_metric t path m = Inr r \<and> materializes t path m r"
proof -
  from assms(1) obtain q mt ds vt where
    f: "field m ''sql'' = Some q" "field m ''metric'' = Some mt"
       "field m ''description'' = Some ds" "field m ''visualization_type'' = Some vt"
    by (auto simp: is_metric_plan_def)
  have g: "py_getitem m ''sql'' = Inr q" "py_getitem m ''metric'' = Inr mt"
       "py_getitem m ''description'' = Inr ds" "py_getitem m ''visualization_type'' = Inr vt"
    using f by (simp_all add: py_getitem_field)
  from assms(2) g(1) have inv: "ainvoke t (exec_args path q) = Inr d"
    by (simp add: query_result_def bindE_def)
  show ?thesis
    using g inv f assms(2)
    by (simp add: execute_metric_def bindE_def field_def py_or_def materializes_def)
qed

lemma execute_loop_materializes:
  assumes "list_all is_metric_plan plans"
    and "list_all (\<lambda>m. \<not> isl (query_result t path m)) plans"
  shows "\<exists>rs. execute_loop t path plans acc = Inr (acc @ rs)
            \<and> list_all2 (materializes t path) plans rs"
  using assms
proof (induction plans arbitrary: acc)
  case Nil
  then show ?case by simp
next
  case (Cons m ms)
  from Cons.prems obtain d where d: "query_result t path m = Inr d"
    by (cases "query_result t path m") auto
  from Cons.prems have pm: "is_metric_plan m" by simp
  from execute_metric_materializes[OF pm d] obtain r where
    r: "execute_metric t path m = Inr r" "materializes t path m r"
    by blast
  from Cons.prems have "list_all is_metric_plan ms"
     "list_all (\<lambda>m. \<not> isl (query_result t path m)) ms" by simp_all
  from Cons.IH[OF this, of "acc @ [r]"] obtain rs where
    rs: "execute_loop t path ms (acc @ [r]) = Inr ((acc @ [r]) @ rs)"
        "list_all2 (materializes t path) ms rs"
    by blast
  have "execute_loop t path (m # ms) acc = Inr (acc @ (r # rs))"
    using r(1) rs(1) by (simp add: bindE_def)
  moreover have "list_all2 (materializes t path) (m # ms) (r # rs)"
    using r(2) rs(2) by simp
  ultimately show ?case by blast
qed

text \<open>
  Claim C1. Given a state whose tool list has the query tool, whose last message parses to
  a DashboardSpec with the metric plans \<open>plans\<close>, and a tool that answers every plan's
  query, \<^verbatim>\<open>node_execute_sql\<close> returns one message whose content is a list of exactly
  as many records as there are plans, in plan order. The i-th record has the metric,
  description and visualization type of the i-th plan, and its data is what the tool
  returned for the plan's query (\<^verbatim>\<open>data or []\<close>: the returned rows, the empty list
  when there are none).
\<close>

theorem node_execute_sql_records:
  assumes tl: "find (\<lambda>t. name t = ''execute_polars_sql'') (tool state) = Some exec_tool"
    and msg: "messages state \<noteq> []"
    and parse: "json_loads (loads sv) (content (last (messages state))) = Inr plan"
    and km: "field plan ''key_metrics'' = Some (PList plans)"
    and wf: "list_all is_metric_plan plans"
    and ok: "list_all (\<lambda>m. \<not> isl (query_result exec_tool (csv_file_path state) m)) plans"
  shows "\<exists>records.
           node_execute_sql sv state = Inr [(''messages'', VMessages [AIMessage (PList records)])]
         \<and> length records = length plans
         \<and> (\<forall>i<length plans.
              field (records ! i) ''metric'' = field (plans ! i) ''metric''
            \<and> field (records ! i) ''description'' = field (plans ! i) ''description''
            \<and> field (records ! i) ''visualization_type'' = field (plans ! i) ''visualization_type''
            \<and> (\<exists>d. query_result exec_tool (csv_file_path state) (plans ! i) = Inr d
                  \<and> field (records ! i) ''data'' = Some (if truthy d then d else PList [])
                  \<and> (\<forall>rows. d = PList rows \<longrightarrow> field (records ! i) ''data'' = Some d)))"
proof -
  from execute_loop_materializes[OF wf ok, of "[]"] obtain rs where
    rs: "execute_loop exec_tool (csv_file_path state) plans [] = Inr rs"
        "list_all2 (materializes exec_tool (csv_file_path state)) plans rs"
    by auto
  from km obtain kvs where plan: "plan = PDict kvs" "map_of kvs ''key_metrics'' = Some (PList plans)"
    by (cases plan) (auto simp: field_def)
  have "node_execute_sql sv state = Inr [(''messages'', VMessages [AIMessage (PList rs)])]"
    using tl msg parse plan rs(1)
    by (simp add: node_execute_sql_def node_execute_sql_body_def next_tool_def py_last_def
        parse_payload_def execute_plan_def bindE_def coroutine_def)
  moreover have "length rs = length plans"
    using rs(2) by (simp add: list_all2_lengthD)
  moreover have "\<forall>i<length plans.
              field (rs ! i) ''metric'' = field (plans ! i) ''metric''
            \<and> field (rs ! i) ''description'' = field (plans ! i) ''description''
            \<and> field (rs ! i) ''visualization_type'' = field (plans ! i) ''visualization_type''
            \<and> (\<exists>d. query_result exec_tool (csv_file_path state) (plans ! i) = Inr d
                  \<and> field (rs ! i) ''data'' = Some (if truthy d then d else PList [])
                  \<and> (\<forall>rows. d = PList rows \<longrightarrow> field (rs ! i) ''data'' = Some d))"
  proof (intro allI impI)
    fix i assume "i < length plans"
    with rs(2) have "materializes exec_tool (csv_file_path state) (plans ! i) (rs ! i)"
      by (simp add: list_all2_nthD)
    then show "field (rs ! i) ''metric'' = field (plans ! i) ''metric''
            \<and> field (rs ! i) ''description'' = field (plans ! i) ''description''
            \<and> field (rs ! i) ''visualization_type'' = field (plans ! i) ''visualization_type''
            \<and> (\<exists>d. query_result exec_tool (csv_file_path state) (plans ! i) = Inr d
                  \<and> field (rs ! i) ''data'' = Some (if truthy d then d else PList [])
                  \<and> (\<forall>rows. d = PList rows \<longrightarrow> field (rs ! i) ''data'' = Some d))"
      by (auto simp: materializes_def split: sum.splits)
  qed
  ultimately show ?thesis by blast
qed

subsection \<open>The test doubles at work in the executor\<close>

lemma loads_plan_text:
  "json_loads (loads stub_services) (PStr stub_plan_text) = Inr stub_minimal_spec"
  by (simp add: json_loads_def stub_services_def stub_loads_def
      stub_plan_text_def stub_analysis_def stub_schema_item_def)

lemma stub_query_results:
  "query_result stub_exec_tool p stub_plan1 = Inr (PList [PDict [(''Age'', PInt 30)]])"
  "query_result stub_exec_tool p stub_plan2 = Inr (PList [])"
  by (simp_all add: query_result_def bindE_def exec_args_def field_def stub_exec_tool_def
      stub_plan1_def stub_plan2_def)

lemma stub_plans_wf: "list_all is_metric_plan [stub_plan1, stub_plan2]"
  by (simp add: is_metric_plan_def field_def stub_plan1_def stub_plan2_def)

lemma stub_loop:
  "execute_loop stub_exec_tool p [stub_plan1, stub_plan2] []
     = Inr [PDict [(''metric'', PStr ''m1''), (''description'', PStr ''d1''),
             (''visualization_type'', PStr ''table''),
             (''data'', PList [PDict [(''Age'', PInt 30)]])],
      PDict [(''metric'', PStr ''m2''), (''description'', PStr ''d2''),
             (''visualization_type'', PStr ''bar_chart''), (''data'', PList [])]]"
  by (simp add: execute_metric_def bindE_def exec_args_def field_def py_or_def
      stub_exec_tool_def stub_plan1_def stub_plan2_def)

lemma planned_result:
  "node_execute_sql stub_services planned_state
     = Inr [(''messages'', VMessages [AIMessage stub_records])]"
proof -
  have t: "next_tool (tool planned_state) ''execute_polars_sql'' = Inr stub_exec_tool"
    by (simp add: next_tool_def planned_state_def stub_state_def stub_get_schema_def
        stub_exec_tool_def)
  have m: "py_last (messages planned_state) = Inr (AIMessage (PStr stub_plan_text))"
    by (simp add: py_last_def planned_state_def)
  have p: "parse_payload stub_services (AIMessage (PStr stub_plan_text)) = Inr stub_minimal_spec"
    by (simp add: parse_payload_def loads_plan_text)
  have e: "execute_plan stub_exec_tool (csv_file_path planned_state) stub_minimal_spec
             = Inr [(''messages'', VMessages [AIMessage stub_records])]"
    by (simp add: execute_plan_def stub_minimal_spec_def bindE_def stub_loop stub_records_def
        del: execute_loop.simps)
  show ?thesis
    by (simp add: node_execute_sql_def node_execute_sql_body_def t m p e bindE_def coroutine_def)
qed

theorem node_execute_sql_records_witness:
  "\<exists>records.
      node_execute_sql stub_services planned_state
        = Inr [(''messages'', VMessages [AIMessage (PList records)])]
    \<and> length records = 2
    \<and> field (records ! 0) ''metric'' = Some (PStr ''m1'')
    \<and> field (records ! 0) ''data'' = Some (PList [PDict [(''Age'', PInt 30)]])
    \<and> field (records ! 1) ''visualization_type'' = Some (PStr ''bar_chart'')
    \<and> field (records ! 1) ''data'' = Some (PList [])"
proof -
  have tl: "find (\<lambda>t. name t = ''execute_polars_sql'') (tool planned_state) = Some stub_exec_tool"
    by (simp add: planned_state_def stub_state_def stub_get_schema_def stub_exec_tool_def)
  have msg: "messages planned_state \<noteq> []"
    by (simp add: planned_state_def)
  have parse: "json_loads (loads stub_services) (content (last (messages planned_state)))
                 = Inr stub_minimal_spec"
    by (simp add: planned_state_def loads_plan_text)
  have km: "field stub_minimal_spec ''key_metrics'' = Some (PList [stub_plan1, stub_plan2])"
    by (simp add: field_def stub_minimal_spec_def)
  have ok: "list_all (\<lambda>m. \<not> isl (query_result stub_exec_tool (csv_file_path planned_state) m))
              [stub_plan1, stub_plan2]"
    by (simp add: stub_query_results)
  from node_execute_sql_records[OF tl msg parse km stub_plans_wf ok]
  obtain records where
    r: "node_execute_sql stub_services planned_state
          = Inr [(''messages'', VMessages [AIMessage (PList records)])]"
       "length records = length [stub_plan1, stub_plan2]"
    by blast
  from r(1) have "records = [PDict [(''metric'', PStr ''m1''), (''description'', PStr ''d1''),
             (''visualization_type'', PStr ''table''),
             (''data'', PList [PDict [(''Age'', PInt 30)]])],
      PDict [(''metric'', PStr ''m2''), (''description'', PStr ''d2''),
             (''visualization_type'', PStr ''bar_chart''), (''data'', PList [])]]"
    by (simp add: planned_result stub_records_def)
  with r show ?thesis by (simp add: field_def)
qed

section \<open>Properties of the Schema Planner\<close>

lemma node_schema_returns:
  "node_schema sv state =
     Inr (case node_schema_try sv state of Inl e \<Rightarrow> error_payload e | Inr out \<Rightarrow> out)"
  by (simp add: node_schema_def coroutine_def split: sum.splits)

text \<open>
  Claim C2. \<^verbatim>\<open>node_schema\<close> never raises: whatever exception the body of its
  \<^verbatim>\<open>try\<close> block raises (an invalid schema, an empty or unparseable reply of the model,
  a missing key, a missing tool, a failing tool or model call), the node returns the dict
  with the tag \<^verbatim>\<open>node_schema_failed\<close> under \<^verbatim>\<open>error\<close> and the text of the
  exception under \<^verbatim>\<open>details\<close>; when the body returns, the node returns its output.
\<close>

theorem node_schema_contains_failures:
  "\<exists>out. node_schema sv state = Inr out
     \<and> (\<forall>e. node_schema_try sv state = Inl e \<longrightarrow>
           out = [(''error'', VStr ''node_schema_failed''), (''details'', VStr (exn_str e))])
     \<and> (\<forall>r. node_schema_try sv state = Inr r \<longrightarrow> out = r)"
proof (cases "node_schema_try sv state")
  case (Inl e)
  then have "node_schema sv state
      = Inr [(''error'', VStr ''node_schema_failed''), (''details'', VStr (exn_str e))]"
    by (simp add: node_schema_returns error_payload_def)
  with Inl show ?thesis by simp
next
  case (Inr r)
  then have "node_schema sv state = Inr r"
    by (simp add: node_schema_returns)
  with Inr show ?thesis by simp
qed

lemma node_schema_try_reply:
  "node_schema_try sv state = bindE (model_reply sv state) (parse_analysis sv)"
  by (simp add: node_schema_try_def model_reply_def plan_metrics_def bindE_def
      split: option.splits sum.splits)

lemma column_ok_field:
  "column_ok x \<longleftrightarrow> field x ''name'' \<noteq> None \<and> field x ''dtype'' \<noteq> None"
  by (cases x) (simp_all add: field_def)

lemma check_schema_cases:
  "check_schema schema_list =
     (if schema_list = [] then Inl (ValueError ''Empty schema returned'')
      else if \<exists>x\<in>set (take 2 schema_list). field x ''name'' = None \<or> field x ''dtype'' = None
        then Inl (ValueError ''Schema items missing required keys after normalization'')
      else Inr ())"
  by (auto simp: check_schema_def list_all_iff column_ok_field)

text \<open>
  Claim C6, as the code has it. With the schema the tool returned normalized to
  \<open>schema_list\<close>, the planner fails with \<^verbatim>\<open>ValueError("Empty schema returned")\<close>
  when the list is empty, fails with the \<^verbatim>\<open>ValueError\<close> on missing keys when one of
  the first two entries is not an object with both a \<^verbatim>\<open>name\<close> and a \<^verbatim>\<open>dtype\<close>
  key (so an entry lacking either one fails), and otherwise the check passes and the
  planner goes on to the model call.
\<close>

theorem schema_check:
  assumes "find (\<lambda>t. name t = ''get_schema'') (tool state) = Some get_schema"
    and "ainvoke get_schema (schema_args (csv_file_path state)) = Inr wrapped"
    and "normalize_schema sv wrapped = Inr schema_list"
  shows "(schema_list = [] \<longrightarrow>
            node_schema_try sv state = Inl (ValueError ''Empty schema returned''))
       \<and> (schema_list \<noteq> []
            \<and> (\<exists>x\<in>set (take 2 schema_list). field x ''name'' = None \<or> field x ''dtype'' = None)
          \<longrightarrow> node_schema_try sv state
                = Inl (ValueError ''Schema items missing required keys after normalization''))
       \<and> (schema_list \<noteq> []
            \<and> (\<forall>x\<in>set (take 2 schema_list). field x ''name'' \<noteq> None \<and> field x ''dtype'' \<noteq> None)
          \<longrightarrow> check_schema schema_list = Inr ()
              \<and> node_schema_try sv state = plan_metrics sv state schema_list)"
proof -
  have "node_schema_try sv state
          = bindE (check_schema schema_list) (\<lambda>_. plan_metrics sv state schema_list)"
    using assms by (simp add: node_schema_try_def next_tool_default_def bindE_def)
  then show ?thesis
    by (auto simp: check_schema_cases bindE_def)
qed

lemma require_keys_dict:
  "require_keys [''key_metrics'', ''dashboard_components''] (PDict kvs) =
     (if map_of kvs ''key_metrics'' = None
        then Inl (ValueError ''Analysis JSON missing required key: key_metrics'')
      else if map_of kvs ''dashboard_components'' = None
        then Inl (ValueError ''Analysis JSON missing required key: dashboard_components'')
      else Inr ())"
  by (simp add: bindE_def)

lemma parse_analysis_empty:
  "parse_analysis sv [] = Inl (RuntimeError ''LLM returned empty content for schema analysis.'')"
  by (simp add: parse_analysis_def)

lemma parse_analysis_undecodable:
  "analysis \<noteq> [] \<Longrightarrow> loads sv analysis = Inl (JSONDecodeError je) \<Longrightarrow>
     parse_analysis sv analysis = Inl (ValueError (''Failed to parse analysis JSON: '' @ je))"
  by (simp add: parse_analysis_def json_loads_def bindE_def)

lemma parse_analysis_other_exception:
  "analysis \<noteq> [] \<Longrightarrow> loads sv analysis = Inl e \<Longrightarrow> \<forall>je. e \<noteq> JSONDecodeError je \<Longrightarrow>
     parse_analysis sv analysis = Inl e"
  by (cases e) (simp_all add: parse_analysis_def json_loads_def bindE_def)

lemma parse_analysis_dict:
  "analysis \<noteq> [] \<Longrightarrow> loads sv analysis = Inr (PDict kvs) \<Longrightarrow>
     parse_analysis sv analysis =
       (if map_of kvs ''key_metrics'' = None
          then Inl (ValueError ''Analysis JSON missing required key: key_metrics'')
        else if map_of kvs ''dashboard_components'' = None
          then Inl (ValueError ''Analysis JSON missing required key: dashboard_components'')
        else Inr [(''messages'', VMessages [AIMessage (PStr (dumps sv False
               (PDict [(''key_metrics'', the (map_of kvs ''key_metrics'')),
                       (''dashboard_components'', the (map_of kvs ''dashboard_components''))])))])])"
  by (auto simp: parse_analysis_def json_loads_def bindE_def minimal_spec_def
      simp del: require_keys.simps simp add: require_keys_dict)

text \<open>
  What the planner does with the reply it receives from the model, for the replies that
  are empty, that \<^verbatim>\<open>json.loads\<close> rejects, or that parse to a JSON object: an empty
  reply fails with the \<^verbatim>\<open>RuntimeError\<close> on empty content; a reply that is not JSON
  fails with the \<^verbatim>\<open>ValueError\<close> on the parse (any other exception of
  \<^verbatim>\<open>json.loads\<close> passes through); a reply that parses to a JSON object without
  \<^verbatim>\<open>key_metrics\<close>, or with it and without \<^verbatim>\<open>dashboard_components\<close>, fails with
  the \<^verbatim>\<open>ValueError\<close> naming the missing key; a reply that parses to a JSON object
  with both keys succeeds.
\<close>

lemma planner_reply_handling:
  assumes "model_reply sv state = Inr analysis"
  shows "(analysis = [] \<longrightarrow>
            node_schema_try sv state
              = Inl (RuntimeError ''LLM returned empty content for schema analysis.''))
       \<and> (\<forall>je. analysis \<noteq> [] \<and> loads sv analysis = Inl (JSONDecodeError je) \<longrightarrow>
            node_schema_try sv state
              = Inl (ValueError (''Failed to parse analysis JSON: '' @ je)))
       \<and> (\<forall>e. analysis \<noteq> [] \<and> loads sv analysis = Inl e
                \<and> (\<forall>je. e \<noteq> JSONDecodeError je) \<longrightarrow>
            node_schema_try sv state = Inl e)
       \<and> (\<forall>kvs. analysis \<noteq> [] \<and> loads sv analysis = Inr (PDict kvs)
                \<and> map_of kvs ''key_metrics'' = None \<longrightarrow>
            node_schema_try sv state
              = Inl (ValueError ''Analysis JSON missing required key: key_metrics''))
       \<and> (\<forall>kvs. analysis \<noteq> [] \<and> loads sv analysis = Inr (PDict kvs)
                \<and> map_of kvs ''key_metrics'' \<noteq> None
                \<and> map_of kvs ''dashboard_components'' = None \<longrightarrow>
            node_schema_try sv state
              = Inl (ValueError ''Analysis JSON missing required key: dashboard_components''))
       \<and> (\<forall>kvs km dc. analysis \<noteq> [] \<and> loads sv analysis = Inr (PDict kvs)
                \<and> map_of kvs ''key_metrics'' = Some km
                \<and> map_of kvs ''dashboard_components'' = Some dc \<longrightarrow>
            node_schema_try sv state
              = Inr [(''messages'', VMessages [AIMessage (PStr (dumps sv False
                  (PDict [(''key_metrics'', km), (''dashboard_components'', dc)])))])])"
proof -
  have "node_schema_try sv state = parse_analysis sv analysis"
    using assms by (simp add: node_schema_try_reply bindE_def)
  then show ?thesis
    by (auto simp: parse_analysis_empty parse_analysis_undecodable parse_analysis_dict
        parse_analysis_other_exception)
qed

lemma require_keys_ok_dict:
  "require_keys [''key_metrics'', ''dashboard_components''] spec = Inr () \<Longrightarrow>
   minimal_spec spec = Inr ms \<Longrightarrow>
   \<exists>kvs km dc. spec = PDict kvs \<and> map_of kvs ''key_metrics'' = Some km
      \<and> map_of kvs ''dashboard_components'' = Some dc
      \<and> ms = PDict [(''key_metrics'', km), (''dashboard_components'', dc)]"
  by (cases spec) (auto simp: minimal_spec_def bindE_def split: if_splits)

lemma parse_analysis_success:
  assumes "parse_analysis sv analysis = Inr out"
  shows "\<exists>kvs km dc. loads sv analysis = Inr (PDict kvs)
      \<and> map_of kvs ''key_metrics'' = Some km
      \<and> map_of kvs ''dashboard_components'' = Some dc
      \<and> out = [(''messages'', VMessages [AIMessage (PStr (dumps sv False
                  (PDict [(''key_metrics'', km), (''dashboard_components'', dc)])))])]"
proof -
  from assms have ne: "analysis \<noteq> []"
    by (auto simp: parse_analysis_def split: if_splits)
  from assms ne obtain spec where sp: "loads sv analysis = Inr spec"
    by (cases "loads sv analysis")
       (auto simp: parse_analysis_def json_loads_def bindE_def split: exn.splits)
  from assms ne sp have rk: "require_keys [''key_metrics'', ''dashboard_components''] spec = Inr ()"
    by (cases "require_keys [''key_metrics'', ''dashboard_components''] spec")
       (auto simp: parse_analysis_def json_loads_def bindE_def simp del: require_keys.simps)
  from assms ne sp rk obtain ms where ms: "minimal_spec spec = Inr ms"
    "out = [(''messages'', VMessages [AIMessage (PStr (dumps sv False ms))])]"
    by (cases "minimal_spec spec")
       (auto simp: parse_analysis_def json_loads_def bindE_def simp del: require_keys.simps)
  from require_keys_ok_dict[OF rk ms(1)] sp ms(2) show ?thesis by auto
qed

text \<open>
  Claim C8. When planning succeeds, the reply of the model parsed to an object with both
  keys, and the message handed to the next stage is the serialization of an object with
  exactly two entries: \<^verbatim>\<open>key_metrics\<close> and \<^verbatim>\<open>dashboard_components\<close>, each with
  the value it has in the parsed reply. No other entry of the reply is in it.
\<close>

theorem planner_handoff_minimal:
  assumes "node_schema_try sv state = Inr out"
  shows "\<exists>analysis kvs km dc.
           model_reply sv state = Inr analysis
         \<and> loads sv analysis = Inr (PDict kvs)
         \<and> map_of kvs ''key_metrics'' = Some km
         \<and> map_of kvs ''dashboard_components'' = Some dc
         \<and> out = [(''messages'', VMessages [AIMessage (PStr (dumps sv False
                     (PDict [(''key_metrics'', km), (''dashboard_components'', dc)])))])]
         \<and> node_schema sv state = Inr out"
proof -
  from assms obtain analysis where a: "model_reply sv state = Inr analysis"
    "parse_analysis sv analysis = Inr out"
    by (cases "model_reply sv state") (auto simp: node_schema_try_reply bindE_def)
  from parse_analysis_success[OF a(2)] a(1) assms show ?thesis
    by (auto simp: node_schema_returns)
qed

text \<open>
  Claim C10. On a state with no tool named \<^verbatim>\<open>execute_polars_sql\<close> the executor raises
  (the \<^verbatim>\<open>StopIteration\<close> of \<^verbatim>\<open>next\<close>, which leaves the coroutine as a
  \<^verbatim>\<open>RuntimeError\<close>) and returns no message; on a state with no tool named
  \<^verbatim>\<open>get_schema\<close> the planner returns its error dict.
\<close>

theorem missing_tool_lookups:
  "((\<forall>t\<in>set (tool state). name t \<noteq> ''execute_polars_sql'') \<longrightarrow>
      node_execute_sql sv state = Inl (RuntimeError ''coroutine raised StopIteration''))
   \<and> ((\<forall>t\<in>set (tool state). name t \<noteq> ''get_schema'') \<longrightarrow>
      node_schema sv state
        = Inr [(''error'', VStr ''node_schema_failed''),
               (''details'', VStr ''get_schema tool not found'')])"
proof -
  have a: "find (\<lambda>t. name t = n) (tool state) = None" if "\<forall>t\<in>set (tool state). name t \<noteq> n" for n
    using that by (simp add: find_None_iff)
  show ?thesis
    by (auto simp: a node_execute_sql_def node_execute_sql_body_def next_tool_def bindE_def
        coroutine_def node_schema_returns node_schema_try_def next_tool_default_def
        error_payload_def)
qed


section \<open>More on the executor and the renderer\<close>

lemma starts_with_append: "starts_with p (p @ m)"
  by (induction p) simp_all

lemma py_getitem_not_malformed:
  "py_getitem m k = Inl e \<Longrightarrow> \<not> is_malformed_plan e"
  by (cases m) (auto simp: is_malformed_plan_def split: option.splits)

lemma execute_metric_query_fails:
  "query_result t path m = Inl e \<Longrightarrow> execute_metric t path m = Inl e"
  by (auto simp: query_result_def execute_metric_def bindE_def split: sum.splits)

lemma execute_metric_not_malformed:
  assumes "\<forall>args x. ainvoke t args = Inl x \<longrightarrow> \<not> is_malformed_plan x"
    and "execute_metric t path m = Inl e"
  shows "\<not> is_malformed_plan e"
  using assms
  by (auto simp: execute_metric_def bindE_def split: sum.splits dest: py_getitem_not_malformed)

lemma execute_loop_not_malformed:
  assumes "\<forall>args x. ainvoke t args = Inl x \<longrightarrow> \<not> is_malformed_plan x"
  shows "execute_loop t path plans acc = Inl e \<Longrightarrow> \<not> is_malformed_plan e"
proof (induction plans arbitrary: acc)
  case Nil
  then show ?case by simp
next
  case (Cons m ms)
  show ?case
  proof (cases "execute_metric t path m")
    case (Inl x)
    with Cons.prems have "x = e" by (simp add: bindE_def)
    with Inl execute_metric_not_malformed[OF assms] show ?thesis by blast
  next
    case (Inr r)
    with Cons.prems have "execute_loop t path ms (acc @ [r]) = Inl e" by (simp add: bindE_def)
    then show ?thesis by (rule Cons.IH)
  qed
qed

lemma coroutine_not_malformed:
  assumes "coroutine r = Inl e" and "\<And>x. r = Inl x \<Longrightarrow> \<not> is_malformed_plan x"
  shows "\<not> is_malformed_plan e"
proof (cases r)
  case (Inl x)
  with assms(1) have "e = x \<or> e = RuntimeError ''coroutine raised StopIteration''"
    by (cases x) (simp_all add: coroutine_def)
  with assms(2)[OF Inl] show ?thesis by (auto simp: is_malformed_plan_def)
next
  case (Inr y)
  with assms(1) show ?thesis by (simp add: coroutine_def)
qed

lemma node_execute_sql_from_payload:
  assumes "find (\<lambda>t. name t = ''execute_polars_sql'') (tool state) = Some exec_tool"
    and "messages state \<noteq> []"
  shows "node_execute_sql sv state
      = coroutine (bindE (parse_payload sv (last (messages state)))
                     (execute_plan exec_tool (csv_file_path state)))"
  using assms
  by (simp add: node_execute_sql_def node_execute_sql_body_def next_tool_def py_last_def
      bindE_def)

text \<open>
  Claim C4, as the code has it. On a state with the query tool and a last message:
  when the content of the last message does not parse as JSON, the executor raises the
  \<^verbatim>\<open>ValueError\<close> on the parse. When the content parses to a JSON object with a
  \<^verbatim>\<open>key_metrics\<close> list, the executor runs the loop over the list, so that a failing
  query of the first plan is the failure of the executor. When the content parses to a
  JSON object without \<^verbatim>\<open>key_metrics\<close>, the plan is empty and the executor returns an
  empty list of records. In these two cases, with a tool that does not itself raise the
  parse error, the executor does not raise it. Nothing is said of content that parses to
  another shape.
\<close>

theorem node_execute_sql_malformed_plan:
  assumes tl: "find (\<lambda>t. name t = ''execute_polars_sql'') (tool state) = Some exec_tool"
    and msg: "messages state \<noteq> []"
  shows "(\<forall>e. json_loads (loads sv) (content (last (messages state))) = Inl e \<longrightarrow>
            node_execute_sql sv state
              = Inl (ValueError (''Failed to parse AIMessage content as JSON: '' @ exn_str e))
          \<and> is_malformed_plan
                (ValueError (''Failed to parse AIMessage content as JSON: '' @ exn_str e)))
       \<and> (\<forall>kvs plans. json_loads (loads sv) (content (last (messages state))) = Inr (PDict kvs)
                \<and> map_of kvs ''key_metrics'' = Some (PList plans) \<longrightarrow>
            node_execute_sql sv state
              = coroutine (bindE (execute_loop exec_tool (csv_file_path state) plans [])
                  (\<lambda>results. Inr [(''messages'', VMessages [AIMessage (PList results)])]))
          \<and> (\<forall>m ms e. plans = m # ms
                  \<and> query_result exec_tool (csv_file_path state) m = Inl e \<longrightarrow>
                node_execute_sql sv state = coroutine (Inl e)))
       \<and> (\<forall>kvs. json_loads (loads sv) (content (last (messages state))) = Inr (PDict kvs)
                \<and> map_of kvs ''key_metrics'' = None \<longrightarrow>
            node_execute_sql sv state = Inr [(''messages'', VMessages [AIMessage (PList [])])])
       \<and> (\<forall>kvs. json_loads (loads sv) (content (last (messages state))) = Inr (PDict kvs)
                \<and> (map_of kvs ''key_metrics'' = None
                     \<or> (\<exists>plans. map_of kvs ''key_metrics'' = Some (PList plans)))
                \<and> (\<forall>args x. ainvoke exec_tool args = Inl x \<longrightarrow> \<not> is_malformed_plan x) \<longrightarrow>
            (\<forall>e. node_execute_sql sv state = Inl e \<longrightarrow> \<not> is_malformed_plan e))"
proof (intro conjI allI impI)
  fix e assume "json_loads (loads sv) (content (last (messages state))) = Inl e"
  then show "node_execute_sql sv state
      = Inl (ValueError (''Failed to parse AIMessage content as JSON: '' @ exn_str e))"
    by (simp add: node_execute_sql_from_payload[OF tl msg] parse_payload_def bindE_def
        coroutine_def)
next
  fix e
  show "is_malformed_plan
          (ValueError (''Failed to parse AIMessage content as JSON: '' @ exn_str e))"
    unfolding is_malformed_plan_def exn.case by (rule starts_with_append)
next
  fix kvs plans
  assume a: "json_loads (loads sv) (content (last (messages state))) = Inr (PDict kvs)
                \<and> map_of kvs ''key_metrics'' = Some (PList plans)"
  then show run: "node_execute_sql sv state
      = coroutine (bindE (execute_loop exec_tool (csv_file_path state) plans [])
          (\<lambda>results. Inr [(''messages'', VMessages [AIMessage (PList results)])]))"
    by (simp add: node_execute_sql_from_payload[OF tl msg] parse_payload_def bindE_def
        execute_plan_def)
  fix m ms e
  assume b: "plans = m # ms \<and> query_result exec_tool (csv_file_path state) m = Inl e"
  then have "execute_metric exec_tool (csv_file_path state) m = Inl e"
    by (simp add: execute_metric_query_fails)
  with b show "node_execute_sql sv state = coroutine (Inl e)"
    unfolding run by (simp add: bindE_def)
next
  fix kvs
  assume "json_loads (loads sv) (content (last (messages state))) = Inr (PDict kvs)
            \<and> map_of kvs ''key_metrics'' = None"
  then show "node_execute_sql sv state = Inr [(''messages'', VMessages [AIMessage (PList [])])]"
    by (simp add: node_execute_sql_from_payload[OF tl msg] parse_payload_def bindE_def
        execute_plan_def coroutine_def)
next
  fix kvs e
  assume a: "json_loads (loads sv) (content (last (messages state))) = Inr (PDict kvs)
                \<and> (map_of kvs ''key_metrics'' = None
                     \<or> (\<exists>plans. map_of kvs ''key_metrics'' = Some (PList plans)))
                \<and> (\<forall>args x. ainvoke exec_tool args = Inl x \<longrightarrow> \<not> is_malformed_plan x)"
    and f: "node_execute_sql sv state = Inl e"
  from a obtain plans where
    p: "py_get (PDict kvs) ''key_metrics'' (PList []) = Inr (PList plans)"
    by auto
  from a have tool_ok: "\<forall>args x. ainvoke exec_tool args = Inl x \<longrightarrow> \<not> is_malformed_plan x"
    by simp
  from a p have run: "node_execute_sql sv state
      = coroutine (bindE (execute_loop exec_tool (csv_file_path state) plans [])
          (\<lambda>results. Inr [(''messages'', VMessages [AIMessage (PList results)])]))"
    by (simp add: node_execute_sql_from_payload[OF tl msg] parse_payload_def bindE_def
        execute_plan_def del: py_get.simps)
  show "\<not> is_malformed_plan e"
  proof (rule coroutine_not_malformed)
    show "coroutine (bindE (execute_loop exec_tool (csv_file_path state) plans [])
          (\<lambda>results. Inr [(''messages'', VMessages [AIMessage (PList results)])])) = Inl e"
      using f run by simp
  next
    fix x
    assume "bindE (execute_loop exec_tool (csv_file_path state) plans [])
          (\<lambda>results. Inr [(''messages'', VMessages [AIMessage (PList results)])]) = Inl x"
    then have "execute_loop exec_tool (csv_file_path state) plans [] = Inl x"
      by (cases "execute_loop exec_tool (csv_file_path state) plans []")
         (simp_all add: bindE_def)
    then show "\<not> is_malformed_plan x"
      by (rule execute_loop_not_malformed[OF tool_ok])
  qed
qed

text \<open>
  Claim C5, as the code has it. Whatever content the model returns, empty or not, the
  renderer returns it unchanged as the content of its one message.
\<close>

theorem node_render_html_passthrough:
  assumes "messages state \<noteq> []"
    and "llm sv INSTRUCTIONS_RENDER_DASHBOARD_FROM_DATA
           (dumps sv True (PDict [(''metrics'', content (last (messages state)))])) = Inr html"
  shows "node_render_html sv state = Inr [(''messages'', VMessages [AIMessage (PStr html)])]"
  using assms by (simp add: node_render_html_def py_last_def bindE_def coroutine_def)


section \<open>Properties of the coordinator\<close>

lemma write_key_frame:
  "fst kv \<noteq> ''csv_file_path'' \<Longrightarrow> fst kv \<noteq> ''tool'' \<Longrightarrow>
     csv_file_path (write_key add st kv) = csv_file_path st
   \<and> tool (write_key add st kv) = tool st"
  by (cases kv; cases "snd kv") auto

lemma apply_update_frame:
  "\<forall>kv\<in>set out. fst kv \<noteq> ''csv_file_path'' \<and> fst kv \<noteq> ''tool'' \<Longrightarrow>
     csv_file_path (apply_update add st out) = csv_file_path st
   \<and> tool (apply_update add st out) = tool st"
  unfolding apply_update_def
proof (induction out arbitrary: st)
  case Nil
  then show ?case by simp
next
  case (Cons kv out)
  then show ?case using write_key_frame[of kv add st] by simp
qed

lemma node_schema_keys:
  assumes "node_schema sv st = Inr out"
  shows "\<forall>kv\<in>set out. fst kv \<noteq> ''csv_file_path'' \<and> fst kv \<noteq> ''tool''"
proof (cases "node_schema_try sv st")
  case (Inl e)
  with assms show ?thesis by (auto simp: node_schema_returns error_payload_def)
next
  case (Inr r)
  then obtain analysis where "parse_analysis sv analysis = Inr r"
    by (cases "model_reply sv st") (auto simp: node_schema_try_reply bindE_def)
  from parse_analysis_success[OF this] Inr assms show ?thesis
    by (auto simp: node_schema_returns)
qed

lemma node_execute_sql_keys:
  assumes "node_execute_sql sv st = Inr out"
  shows "\<forall>kv\<in>set out. fst kv \<noteq> ''csv_file_path'' \<and> fst kv \<noteq> ''tool''"
  using assms
  by (auto simp: node_execute_sql_def node_execute_sql_body_def coroutine_def bindE_def
      execute_plan_def split: sum.splits exn.splits)

lemma node_render_html_keys:
  assumes "node_render_html sv st = Inr out"
  shows "\<forall>kv\<in>set out. fst kv \<noteq> ''csv_file_path'' \<and> fst kv \<noteq> ''tool''"
  using assms
  by (auto simp: node_render_html_def coroutine_def bindE_def split: sum.splits exn.splits)

lemma pipeline_node_frame:
  assumes "map_of (nodes build_pipeline_graph) cur = Some node" and "node sv st = Inr out"
  shows "csv_file_path (apply_update add st out) = csv_file_path st
       \<and> tool (apply_update add st out) = tool st"
proof -
  from assms(1) have "node = node_schema \<or> node = node_execute_sql \<or> node = node_render_html"
    by (auto simp: build_pipeline_graph_def split: if_splits)
  with assms(2) have "\<forall>kv\<in>set out. fst kv \<noteq> ''csv_file_path'' \<and> fst kv \<noteq> ''tool''"
    using node_schema_keys node_execute_sql_keys node_render_html_keys by blast
  then show ?thesis by (rule apply_update_frame)
qed

lemma run_graph_frame:
  "(\<forall>s\<in>set (completed_states (fst (run_graph add sv build_pipeline_graph limit cur st))).
       csv_file_path s = csv_file_path st \<and> tool s = tool st)
   \<and> (\<forall>s. snd (run_graph add sv build_pipeline_graph limit cur st) = Inr s \<longrightarrow>
       csv_file_path s = csv_file_path st \<and> tool s = tool st)"
proof (induction limit arbitrary: cur st)
  case 0
  then show ?case by simp
next
  case (Suc limit)
  show ?case
  proof (cases "cur = END")
    case True
    then show ?thesis by simp
  next
    case notend: False
    show ?thesis
    proof (cases "map_of (nodes build_pipeline_graph) cur")
      case None
      with notend show ?thesis by simp
    next
      case (Some node)
      show ?thesis
      proof (cases "node sv st")
        case (Inl e)
        with notend Some show ?thesis by simp
      next
        case (Inr out)
        let ?st' = "apply_update add st out"
        have fr: "csv_file_path ?st' = csv_file_path st \<and> tool ?st' = tool st"
          using pipeline_node_frame[OF Some Inr] .
        show ?thesis
        proof (cases "map_of (edges build_pipeline_graph) cur")
          case None
          with notend \<open>map_of (nodes build_pipeline_graph) cur = Some node\<close> Inr fr
          show ?thesis by (simp add: Let_def)
        next
          case (Some nxt)
          obtain steps r where run: "run_graph add sv build_pipeline_graph limit nxt ?st' = (steps, r)"
            by (cases "run_graph add sv build_pipeline_graph limit nxt ?st'")
          from Suc.IH[of nxt ?st'] run fr have
            "\<forall>s\<in>set (completed_states steps). csv_file_path s = csv_file_path st \<and> tool s = tool st"
            "\<forall>s. r = Inr s \<longrightarrow> csv_file_path s = csv_file_path st \<and> tool s = tool st"
            by simp_all
          with notend \<open>map_of (nodes build_pipeline_graph) cur = Some node\<close> Inr Some run fr
          show ?thesis by (simp add: Let_def)
        qed
      qed
    qed
  qed
qed

text \<open>
  Claim C9. The update a node returns never changes \<^verbatim>\<open>csv_file_path\<close> or
  \<^verbatim>\<open>tool\<close>: this holds for each of the three nodes on any state, for the state after
  every completed node of a pipeline run, and for the final state of the run.
\<close>

theorem dataset_and_tools_never_change:
  "(\<forall>node\<in>{node_schema, node_execute_sql, node_render_html}. \<forall>out.
       node sv state = Inr out \<longrightarrow>
         (\<forall>kv\<in>set out. fst kv \<noteq> ''csv_file_path'' \<and> fst kv \<noteq> ''tool'')
       \<and> csv_file_path (apply_update add state out) = csv_file_path state
       \<and> tool (apply_update add state out) = tool state)
   \<and> (\<forall>s\<in>set (completed_states (fst (pipeline_ainvoke add sv state))).
       csv_file_path s = csv_file_path state \<and> tool s = tool state)
   \<and> (\<forall>s. snd (pipeline_ainvoke add sv state) = Inr s \<longrightarrow>
       csv_file_path s = csv_file_path state \<and> tool s = tool state)"
proof (intro conjI ballI allI impI)
  fix node out
  assume n: "node \<in> {node_schema, node_execute_sql, node_render_html}"
    and r: "node sv state = Inr out"
  from n r have keys: "\<forall>kv\<in>set out. fst kv \<noteq> ''csv_file_path'' \<and> fst kv \<noteq> ''tool''"
    using node_schema_keys[of sv state out] node_execute_sql_keys[of sv state out]
      node_render_html_keys[of sv state out] by auto
  fix kv assume "kv \<in> set out"
  with keys show "fst kv \<noteq> ''csv_file_path''" and "fst kv \<noteq> ''tool''" by simp_all
next
  fix node out
  assume n: "node \<in> {node_schema, node_execute_sql, node_render_html}"
    and r: "node sv state = Inr out"
  from n r have keys: "\<forall>kv\<in>set out. fst kv \<noteq> ''csv_file_path'' \<and> fst kv \<noteq> ''tool''"
    using node_schema_keys[of sv state out] node_execute_sql_keys[of sv state out]
      node_render_html_keys[of sv state out] by auto
  from apply_update_frame[OF keys, of add state]
  show "csv_file_path (apply_update add state out) = csv_file_path state"
    and "tool (apply_update add state out) = tool state" by simp_all
next
  fix s assume "s \<in> set (completed_states (fst (pipeline_ainvoke add sv state)))"
  with run_graph_frame[of add sv 25 "entry_point build_pipeline_graph" state]
  show "csv_file_path s = csv_file_path state" and "tool s = tool state"
    unfolding pipeline_ainvoke_def by simp_all
next
  fix s assume "snd (pipeline_ainvoke add sv state) = Inr s"
  with run_graph_frame[of add sv 25 "entry_point build_pipeline_graph" state]
  show "csv_file_path s = csv_file_path state" and "tool s = tool state"
    unfolding pipeline_ainvoke_def by simp_all
qed

lemma apply_update_error_payload:
  "apply_update add st (error_payload e) = st"
  by (simp add: apply_update_def error_payload_def)

lemma run_graph_pos:
  "0 < limit \<Longrightarrow>
   run_graph add sv g limit cur st =
     (if cur = END then ([], Inr st)
      else case map_of (nodes g) cur of
        None \<Rightarrow> ([], Inl (KeyError cur))
      | Some node \<Rightarrow>
          (case node sv st of
             Inl e \<Rightarrow> ([Raised cur e], Inl e)
           | Inr out \<Rightarrow>
               (let st' = apply_update add st out in
                case map_of (edges g) cur of
                  None \<Rightarrow> ([Completed cur st'], Inr st')
                | Some nxt \<Rightarrow>
                    (case run_graph add sv g (limit - 1) nxt st' of
                       (steps, r) \<Rightarrow> (Completed cur st' # steps, r)))))"
proof (cases limit)
  case 0
  assume "0 < limit"
  with 0 show ?thesis by simp
next
  case (Suc n)
  show ?thesis unfolding Suc diff_Suc_1 by simp
qed

lemma run_from_end:
  "run_graph add sv g limit END st = ([], Inr st)"
proof (cases limit)
  case 0
  show ?thesis unfolding 0 by simp
next
  case (Suc n)
  show ?thesis unfolding Suc by simp
qed

lemma run_from_render:
  "run_graph add sv build_pipeline_graph 23 ''render_html'' st =
     (case node_render_html sv st of
        Inl e \<Rightarrow> ([Raised ''render_html'' e], Inl e)
      | Inr out \<Rightarrow> ([Completed ''render_html'' (apply_update add st out)],
                     Inr (apply_update add st out)))"
  by (subst run_graph_pos)
     (simp_all add: build_pipeline_graph_def END_def Let_def run_from_end[unfolded END_def]
        split: sum.splits)

lemma run_from_execute:
  "run_graph add sv build_pipeline_graph 24 ''execute_sql'' st =
     (case node_execute_sql sv st of
        Inl e \<Rightarrow> ([Raised ''execute_sql'' e], Inl e)
      | Inr out \<Rightarrow>
          (case run_graph add sv build_pipeline_graph 23 ''render_html'' (apply_update add st out) of
             (steps, r) \<Rightarrow> (Completed ''execute_sql'' (apply_update add st out) # steps, r)))"
  by (subst run_graph_pos)
     (simp_all add: build_pipeline_graph_def END_def Let_def split: sum.splits)

lemma run_from_schema:
  "run_graph add sv build_pipeline_graph 25 ''schema'' st =
     (case node_schema sv st of
        Inl e \<Rightarrow> ([Raised ''schema'' e], Inl e)
      | Inr out \<Rightarrow>
          (case run_graph add sv build_pipeline_graph 24 ''execute_sql'' (apply_update add st out) of
             (steps, r) \<Rightarrow> (Completed ''schema'' (apply_update add st out) # steps, r)))"
  by (subst run_graph_pos)
     (simp_all add: build_pipeline_graph_def END_def Let_def split: sum.splits)

lemma pipeline_unfold:
  "pipeline_ainvoke add sv st =
     (case node_schema sv st of
        Inl e \<Rightarrow> ([Raised ''schema'' e], Inl e)
      | Inr out1 \<Rightarrow>
          (let st1 = apply_update add st out1 in
           case node_execute_sql sv st1 of
             Inl e \<Rightarrow> ([Completed ''schema'' st1, Raised ''execute_sql'' e], Inl e)
           | Inr out2 \<Rightarrow>
               (let st2 = apply_update add st1 out2 in
                case node_render_html sv st2 of
                  Inl e \<Rightarrow> ([Completed ''schema'' st1, Completed ''execute_sql'' st2,
                             Raised ''render_html'' e], Inl e)
                | Inr out3 \<Rightarrow>
                    (let st3 = apply_update add st2 out3 in
                     ([Completed ''schema'' st1, Completed ''execute_sql'' st2,
                       Completed ''render_html'' st3], Inr st3)))))"
proof -
  have e: "entry_point build_pipeline_graph = ''schema''"
    by (simp add: build_pipeline_graph_def)
  show ?thesis
    unfolding pipeline_ainvoke_def e run_from_schema run_from_execute run_from_render
    by (simp add: Let_def split: sum.splits)
qed

text \<open>
  Claim C3, as the code has it. When the model replies with the empty string, the body of
  the planner fails with the \<^verbatim>\<open>RuntimeError\<close> on empty content and the planner
  returns its error dict. The edge from the planner is unconditional and the error dict
  writes no key of the state: the run enters \<^verbatim>\<open>node_execute_sql\<close> on the unchanged
  state, and enters \<^verbatim>\<open>node_render_html\<close> exactly when the executor returns.
\<close>

theorem empty_reply_run:
  assumes "model_reply sv state = Inr []"
  shows "node_schema_try sv state
           = Inl (RuntimeError ''LLM returned empty content for schema analysis.'')
       \<and> node_schema sv state
           = Inr [(''error'', VStr ''node_schema_failed''),
                  (''details'', VStr ''LLM returned empty content for schema analysis.'')]
       \<and> entered_nodes (pipeline_ainvoke add sv state)
           = (if isl (node_execute_sql sv state) then [''schema'', ''execute_sql'']
              else [''schema'', ''execute_sql'', ''render_html''])"
proof -
  have t: "node_schema_try sv state
             = Inl (RuntimeError ''LLM returned empty content for schema analysis.'')"
    using assms by (simp add: node_schema_try_reply bindE_def parse_analysis_empty)
  then have s: "node_schema sv state
      = Inr (error_payload (RuntimeError ''LLM returned empty content for schema analysis.''))"
    by (simp add: node_schema_returns)
  have "entered_nodes (pipeline_ainvoke add sv state)
           = (if isl (node_execute_sql sv state) then [''schema'', ''execute_sql'']
              else [''schema'', ''execute_sql'', ''render_html''])"
    unfolding pipeline_unfold s
    by (simp add: apply_update_error_payload entered_nodes_def Let_def split: sum.splits)
  with t s show ?thesis by (simp add: error_payload_def)
qed

section \<open>The test doubles at work\<close>

lemma stub_tools:
  "find (\<lambda>t. name t = ''get_schema'') (tool stub_state) = Some stub_get_schema"
  "find (\<lambda>t. name t = ''execute_polars_sql'') (tool stub_state) = Some stub_exec_tool"
  by (simp_all add: stub_state_def stub_get_schema_def stub_exec_tool_def)

lemma stub_loads_texts:
  "stub_loads stub_schema_item = Inr (PDict [(''name'', PStr ''Age''), (''dtype'', PStr ''int'')])"
  "stub_loads stub_analysis = Inr stub_spec"
  "stub_loads stub_keys_array = Inr (PList [PStr ''key_metrics'', PStr ''dashboard_components''])"
  "stub_loads ''{}'' = Inr (PDict [])"
  "stub_loads stub_question = Inl (JSONDecodeError ''Expecting value: line 1 column 1 (char 0)'')"
  "stub_loads stub_failing_plan_text
     = Inr (PDict [(''key_metrics'', PList [PDict [(''sql'', PStr ''q3'')]])])"
  by (simp_all add: stub_loads_def stub_schema_item_def stub_analysis_def stub_plan_text_def
      stub_failing_plan_text_def
      stub_keys_array_def stub_question_def)

lemma stub_schema_normalized:
  assumes "loads sv = stub_loads"
  shows "normalize_schema sv (PList [PStr stub_schema_item])
           = Inr [PDict [(''name'', PStr ''Age''), (''dtype'', PStr ''int'')]]"
  by (simp add: normalize_schema_def normalize_item_def json_loads_def bindE_def assms
      stub_loads_texts)

lemma stub_schema_checked:
  "check_schema [PDict [(''name'', PStr ''Age''), (''dtype'', PStr ''int'')]] = Inr ()"
  by (simp add: check_schema_def)

lemma stub_model_reply:
  assumes "loads sv = stub_loads"
    and "\<And>user. llm sv INSTRUCTIONS_CSV_ANALYSIS_AND_SCHEMA user = Inr a"
  shows "model_reply sv stub_state = Inr a"
proof -
  have t: "next_tool_default (tool stub_state) ''get_schema'' = Some stub_get_schema"
    by (simp add: next_tool_default_def stub_tools)
  have w: "ainvoke stub_get_schema (schema_args (csv_file_path stub_state))
             = Inr (PList [PStr stub_schema_item])"
    by (simp add: stub_get_schema_def)
  have m: "py_last (messages stub_state) = Inr (HumanMessage (PStr stub_question))"
    by (simp add: py_last_def stub_state_def)
  show ?thesis
    by (simp add: model_reply_def t w m bindE_def stub_schema_normalized[OF assms(1)]
        stub_schema_checked assms(2))
qed

lemma stub_replies:
  "model_reply stub_services stub_state = Inr stub_analysis"
  "model_reply silent_services stub_state = Inr []"
  "model_reply array_services stub_state = Inr stub_keys_array"
  by (rule stub_model_reply; simp add: stub_services_def silent_services_def array_services_def
      stub_llm_def)+

lemma stub_analysis_nonempty: "stub_analysis \<noteq> []" "stub_keys_array \<noteq> []"
  by (simp_all add: stub_analysis_def stub_keys_array_def)

lemma stub_planned:
  "node_schema_try stub_services stub_state
     = Inr [(''messages'', VMessages [AIMessage (PStr stub_plan_text)])]"
proof -
  have l: "loads stub_services stub_analysis
      = Inr (PDict [(''domain'', PStr ''people''),
                    (''key_metrics'', PList [stub_plan1, stub_plan2]),
                    (''dashboard_components'', PList [PStr ''charts''])])"
    by (simp add: stub_services_def stub_loads_texts stub_spec_def)
  have d: "dumps stub_services False
      (PDict [(''key_metrics'', PList [stub_plan1, stub_plan2]),
              (''dashboard_components'', PList [PStr ''charts''])]) = stub_plan_text"
    by (simp add: stub_services_def stub_dumps_def stub_minimal_spec_def)
  show ?thesis
    by (simp add: node_schema_try_reply stub_replies bindE_def
        parse_analysis_dict[OF stub_analysis_nonempty(1) l] d)
qed

lemma silent_schema_try:
  "node_schema_try silent_services stub_state
     = Inl (RuntimeError ''LLM returned empty content for schema analysis.'')"
  by (simp add: node_schema_try_reply stub_replies bindE_def parse_analysis_empty)

lemma stub_question_unparsed:
  assumes "loads sv = stub_loads"
  shows "json_loads (loads sv) (content (last (messages stub_state)))
           = Inl (JSONDecodeError ''Expecting value: line 1 column 1 (char 0)'')"
  by (simp add: json_loads_def assms stub_state_def stub_loads_texts)

lemma stub_execute_unplanned:
  assumes "loads sv = stub_loads"
  shows "node_execute_sql sv stub_state
     = Inl (ValueError (''Failed to parse AIMessage content as JSON: ''
              @ ''Expecting value: line 1 column 1 (char 0)''))"
proof -
  have t: "next_tool (tool stub_state) ''execute_polars_sql'' = Inr stub_exec_tool"
    by (simp add: next_tool_def stub_tools)
  have m: "py_last (messages stub_state) = Inr (last (messages stub_state))"
    by (simp add: py_last_def stub_state_def)
  have p: "parse_payload sv (last (messages stub_state))
     = Inl (ValueError (''Failed to parse AIMessage content as JSON: ''
              @ ''Expecting value: line 1 column 1 (char 0)''))"
    by (simp add: parse_payload_def stub_question_unparsed[OF assms])
  show ?thesis
    by (simp add: node_execute_sql_def node_execute_sql_body_def t m p bindE_def coroutine_def)
qed

lemma stub_rendered:
  "node_render_html stub_services executed_state
     = Inr [(''messages'', VMessages [AIMessage (PStr stub_html)])]"
  by (simp add: node_render_html_def py_last_def bindE_def coroutine_def executed_state_def
      stub_services_def stub_llm_def)

lemma replace_messages_update:
  "apply_update replace_messages st [(''messages'', VMessages ms)] = st\<lparr>messages := ms\<rparr>"
  by (simp add: apply_update_def replace_messages_def)

lemma stub_pipeline_run:
  "pipeline_ainvoke replace_messages stub_services stub_state
     = ([Completed ''schema'' planned_state, Completed ''execute_sql'' executed_state,
         Completed ''render_html'' rendered_state], Inr rendered_state)"
proof -
  have s: "node_schema stub_services stub_state
             = Inr [(''messages'', VMessages [AIMessage (PStr stub_plan_text)])]"
    by (simp add: node_schema_returns stub_planned)
  have p: "stub_state\<lparr>messages := [AIMessage (PStr stub_plan_text)]\<rparr> = planned_state"
    by (simp add: planned_state_def)
  have e: "planned_state\<lparr>messages := [AIMessage stub_records]\<rparr> = executed_state"
    by (simp add: planned_state_def executed_state_def)
  have r: "executed_state\<lparr>messages := [AIMessage (PStr stub_html)]\<rparr> = rendered_state"
    by (simp add: executed_state_def rendered_state_def)
  show ?thesis
    by (simp add: pipeline_unfold s replace_messages_update p planned_result e stub_rendered r)
qed


section \<open>The properties at the test doubles\<close>

theorem node_schema_contains_failures_witness:
  "node_schema silent_services stub_state
     = Inr [(''error'', VStr ''node_schema_failed''),
            (''details'', VStr ''LLM returned empty content for schema analysis.'')]"
  using node_schema_contains_failures[of silent_services stub_state] silent_schema_try
  by auto

text \<open>
  With a model that replies with the empty string, the run of the pipeline enters the
  executor after the planner: the planner returned its error dict, the executor finds the
  question as the last message and fails to parse it.
\<close>

theorem empty_reply_enters_executor:
  "model_reply silent_services stub_state = Inr []
   \<and> entered_nodes (pipeline_ainvoke replace_messages silent_services stub_state)
       = [''schema'', ''execute_sql'']"
proof -
  have s: "node_schema silent_services stub_state
     = Inr (error_payload (RuntimeError ''LLM returned empty content for schema analysis.''))"
    by (simp add: node_schema_returns silent_schema_try)
  have e: "node_execute_sql silent_services stub_state
     = Inl (ValueError (''Failed to parse AIMessage content as JSON: ''
              @ ''Expecting value: line 1 column 1 (char 0)''))"
    by (rule stub_execute_unplanned) (simp add: silent_services_def)
  show ?thesis
    by (simp add: stub_replies pipeline_unfold s apply_update_error_payload e entered_nodes_def)
qed

theorem empty_reply_run_witness:
  "node_schema silent_services stub_state
     = Inr [(''error'', VStr ''node_schema_failed''),
            (''details'', VStr ''LLM returned empty content for schema analysis.'')]
   \<and> entered_nodes (pipeline_ainvoke append_messages silent_services stub_state)
       = [''schema'', ''execute_sql'']"
proof -
  have e: "isl (node_execute_sql silent_services stub_state)"
    by (simp add: stub_execute_unplanned silent_services_def)
  from empty_reply_run[OF stub_replies(2), of append_messages] e show ?thesis by simp
qed

text \<open>
  A last message whose content is the JSON text of the empty object parses, has no
  \<^verbatim>\<open>key_metrics\<close>, and the executor returns an empty list of records.
\<close>

theorem empty_object_is_empty_plan:
  "json_loads (loads stub_services) (content (last (messages empty_object_state)))
     = Inr (PDict [])
   \<and> field (PDict []) ''key_metrics'' = None
   \<and> node_execute_sql stub_services empty_object_state
       = Inr [(''messages'', VMessages [AIMessage (PList [])])]"
proof -
  have l: "json_loads (loads stub_services) (content (last (messages empty_object_state)))
     = Inr (PDict [])"
    by (simp add: json_loads_def empty_object_state_def stub_services_def stub_loads_texts)
  have t: "next_tool (tool empty_object_state) ''execute_polars_sql'' = Inr stub_exec_tool"
    by (simp add: next_tool_def empty_object_state_def stub_tools)
  have m: "py_last (messages empty_object_state) = Inr (last (messages empty_object_state))"
    by (simp add: py_last_def empty_object_state_def)
  have p: "parse_payload stub_services (last (messages empty_object_state)) = Inr (PDict [])"
    by (simp add: parse_payload_def l)
  have "node_execute_sql stub_services empty_object_state
       = Inr [(''messages'', VMessages [AIMessage (PList [])])]"
    by (simp add: node_execute_sql_def node_execute_sql_body_def t m p bindE_def coroutine_def
        execute_plan_def)
  with l show ?thesis by (simp add: field_def)
qed

theorem node_execute_sql_malformed_plan_witness:
  "node_execute_sql stub_services stub_state
     = Inl (ValueError (''Failed to parse AIMessage content as JSON: ''
              @ ''Expecting value: line 1 column 1 (char 0)''))
   \<and> node_execute_sql stub_services failing_query_state = Inl (ExternalError ''SQL error'')
   \<and> \<not> is_malformed_plan (ExternalError ''SQL error'')"
proof -
  have m: "messages stub_state \<noteq> []" by (simp add: stub_state_def)
  have l: "json_loads (loads stub_services) (content (last (messages stub_state)))
           = Inl (JSONDecodeError ''Expecting value: line 1 column 1 (char 0)'')"
    by (rule stub_question_unparsed) (simp add: stub_services_def)
  from node_execute_sql_malformed_plan[OF stub_tools(2) m, of stub_services] l
  have first: "node_execute_sql stub_services stub_state
     = Inl (ValueError (''Failed to parse AIMessage content as JSON: ''
              @ ''Expecting value: line 1 column 1 (char 0)''))"
    by simp
  have t: "find (\<lambda>t. name t = ''execute_polars_sql'') (tool failing_query_state)
             = Some stub_exec_tool"
    by (simp add: failing_query_state_def stub_tools)
  have n: "messages failing_query_state \<noteq> []" by (simp add: failing_query_state_def)
  have p: "json_loads (loads stub_services) (content (last (messages failing_query_state)))
      = Inr (PDict [(''key_metrics'', PList [PDict [(''sql'', PStr ''q3'')]])])"
    by (simp add: json_loads_def failing_query_state_def stub_services_def stub_loads_texts)
  have k: "map_of [(''key_metrics'', PList [PDict [(''sql'', PStr ''q3'')]])] ''key_metrics''
      = Some (PList [PDict [(''sql'', PStr ''q3'')]])"
    by simp
  have q: "query_result stub_exec_tool (csv_file_path failing_query_state)
             (PDict [(''sql'', PStr ''q3'')]) = Inl (ExternalError ''SQL error'')"
    by (simp add: query_result_def bindE_def exec_args_def field_def stub_exec_tool_def)
  have tool_ok: "\<forall>args x. ainvoke stub_exec_tool args = Inl x \<longrightarrow> \<not> is_malformed_plan x"
    by (auto simp: stub_exec_tool_def is_malformed_plan_def split: if_splits)
  note inst = node_execute_sql_malformed_plan[OF t n, of stub_services]
  from inst p k q have second: "node_execute_sql stub_services failing_query_state
      = coroutine (Inl (ExternalError ''SQL error''))"
    by blast
  from inst p k tool_ok
  have "\<forall>e. node_execute_sql stub_services failing_query_state = Inl e \<longrightarrow> \<not> is_malformed_plan e"
    by blast
  with first second show ?thesis by (simp add: coroutine_def)
qed

text \<open>An empty reply of the model is returned by the renderer as it is.\<close>

theorem empty_markup_returned:
  "node_render_html silent_services executed_state
     = Inr [(''messages'', VMessages [AIMessage (PStr [])])]"
  by (simp add: node_render_html_def py_last_def bindE_def coroutine_def executed_state_def
      silent_services_def)

theorem node_render_html_passthrough_witness:
  "node_render_html stub_services executed_state
     = Inr [(''messages'', VMessages [AIMessage (PStr stub_html)])]"
proof -
  have m: "messages executed_state \<noteq> []" by (simp add: executed_state_def)
  have l: "llm stub_services INSTRUCTIONS_RENDER_DASHBOARD_FROM_DATA
             (dumps stub_services True (PDict [(''metrics'', content (last (messages executed_state)))]))
           = Inr stub_html"
    by (simp add: stub_services_def stub_llm_def)
  from node_render_html_passthrough[OF m l] show ?thesis .
qed

text \<open>
  A schema whose one column has a name and no \<^verbatim>\<open>dtype\<close> is rejected by the second
  sanity check.
\<close>

theorem name_without_dtype_rejected:
  "field (PDict [(''name'', PStr ''Age'')]) ''name'' = Some (PStr ''Age'')
   \<and> normalize_schema stub_services (PList [PDict [(''name'', PStr ''Age'')]])
       = Inr [PDict [(''name'', PStr ''Age'')]]
   \<and> node_schema_try stub_services name_only_state
       = Inl (ValueError ''Schema items missing required keys after normalization'')"
proof -
  have n: "normalize_schema stub_services (PList [PDict [(''name'', PStr ''Age'')]])
       = Inr [PDict [(''name'', PStr ''Age'')]]"
    by (simp add: normalize_schema_def normalize_item_def bindE_def)
  have c: "check_schema [PDict [(''name'', PStr ''Age'')]]
       = Inl (ValueError ''Schema items missing required keys after normalization'')"
    by (simp add: check_schema_def)
  have "node_schema_try stub_services name_only_state
       = Inl (ValueError ''Schema items missing required keys after normalization'')"
    by (simp add: node_schema_try_def next_tool_default_def name_only_state_def n c bindE_def)
  with n show ?thesis by (simp add: field_def)
qed

theorem schema_check_witness:
  "node_schema_try stub_services stub_state
     = plan_metrics stub_services stub_state
         [PDict [(''name'', PStr ''Age''), (''dtype'', PStr ''int'')]]"
proof -
  have w: "ainvoke stub_get_schema (schema_args (csv_file_path stub_state))
             = Inr (PList [PStr stub_schema_item])"
    by (simp add: stub_get_schema_def)
  have n: "normalize_schema stub_services (PList [PStr stub_schema_item])
           = Inr [PDict [(''name'', PStr ''Age''), (''dtype'', PStr ''int'')]]"
    by (simp add: stub_schema_normalized stub_services_def)
  from schema_check[OF stub_tools(1) w n] show ?thesis by (simp add: field_def)
qed

text \<open>
  Claim C7, at the reply on which the code departs from it. A reply that is the JSON
  array of the two key names is not empty and parses, and it is not an object that has
  the two keys. The loop over the required keys lets it through (\<^verbatim>\<open>k in spec\<close> is
  list membership there), and the planner fails later, at \<^verbatim>\<open>spec.get\<close>, with an
  \<^verbatim>\<open>AttributeError\<close> and not with the \<^verbatim>\<open>ValueError\<close> on a missing key.
\<close>

theorem array_reply_fails_after_key_check:
  "model_reply array_services stub_state = Inr stub_keys_array
   \<and> loads array_services stub_keys_array
       = Inr (PList [PStr ''key_metrics'', PStr ''dashboard_components''])
   \<and> require_keys [''key_metrics'', ''dashboard_components'']
         (PList [PStr ''key_metrics'', PStr ''dashboard_components'']) = Inr ()
   \<and> node_schema_try array_services stub_state
       = Inl (AttributeError (sq ''list'' @ '' object has no attribute '' @ sq ''get''))
   \<and> node_schema array_services stub_state
       = Inr [(''error'', VStr ''node_schema_failed''),
              (''details'', VStr (sq ''list'' @ '' object has no attribute '' @ sq ''get''))]"
proof -
  have l: "loads array_services stub_keys_array
       = Inr (PList [PStr ''key_metrics'', PStr ''dashboard_components''])"
    by (simp add: array_services_def stub_loads_texts)
  have r: "require_keys [''key_metrics'', ''dashboard_components'']
         (PList [PStr ''key_metrics'', PStr ''dashboard_components'']) = Inr ()"
    by (simp add: bindE_def)
  have "parse_analysis array_services stub_keys_array
       = Inl (AttributeError (sq ''list'' @ '' object has no attribute '' @ sq ''get''))"
    by (simp add: parse_analysis_def stub_analysis_nonempty json_loads_def l r bindE_def
        minimal_spec_def del: require_keys.simps)
  then have t: "node_schema_try array_services stub_state
       = Inl (AttributeError (sq ''list'' @ '' object has no attribute '' @ sq ''get''))"
    by (simp add: node_schema_try_reply stub_replies bindE_def)
  then have "node_schema array_services stub_state
       = Inr [(''error'', VStr ''node_schema_failed''),
              (''details'', VStr (sq ''list'' @ '' object has no attribute '' @ sq ''get''))]"
    by (simp add: node_schema_returns error_payload_def)
  with t l r show ?thesis
    by (simp add: stub_replies del: require_keys.simps)
qed

theorem planner_handoff_minimal_witness:
  "node_schema stub_services stub_state
     = Inr [(''messages'', VMessages [AIMessage (PStr stub_plan_text)])]
   \<and> field stub_spec ''domain'' = Some (PStr ''people'')
   \<and> field stub_minimal_spec ''domain'' = None
   \<and> loads stub_services stub_plan_text = Inr stub_minimal_spec"
proof -
  from planner_handoff_minimal[OF stub_planned]
  have "node_schema stub_services stub_state
     = Inr [(''messages'', VMessages [AIMessage (PStr stub_plan_text)])]"
    by blast
  moreover have "loads stub_services stub_plan_text = Inr stub_minimal_spec"
    by (simp add: stub_services_def stub_loads_def stub_plan_text_def stub_analysis_def
        stub_schema_item_def)
  ultimately show ?thesis
    by (simp add: field_def stub_spec_def stub_minimal_spec_def)
qed

theorem dataset_and_tools_never_change_witness:
  "snd (pipeline_ainvoke replace_messages stub_services stub_state) = Inr rendered_state
   \<and> csv_file_path rendered_state = ''/tmp/uploaded_players.csv''
   \<and> tool rendered_state = [stub_get_schema, stub_exec_tool]
   \<and> list_all (\<lambda>s. csv_file_path s = ''/tmp/uploaded_players.csv'')
        (completed_states (fst (pipeline_ainvoke replace_messages stub_services stub_state)))"
proof -
  have r: "snd (pipeline_ainvoke replace_messages stub_services stub_state) = Inr rendered_state"
    by (simp add: stub_pipeline_run)
  from dataset_and_tools_never_change[of stub_services stub_state replace_messages] r
  have "csv_file_path rendered_state = csv_file_path stub_state
      \<and> tool rendered_state = tool stub_state
      \<and> (\<forall>s\<in>set (completed_states
              (fst (pipeline_ainvoke replace_messages stub_services stub_state))).
            csv_file_path s = csv_file_path stub_state)"
    by blast
  with r show ?thesis by (simp add: stub_state_def list_all_iff)
qed

theorem missing_tool_lookups_witness:
  "node_execute_sql stub_services no_tools_state
     = Inl (RuntimeError ''coroutine raised StopIteration'')
   \<and> node_schema stub_services no_tools_state
     = Inr [(''error'', VStr ''node_schema_failed''),
            (''details'', VStr ''get_schema tool not found'')]"
  using missing_tool_lookups[of no_tools_state stub_services]
  by (simp add: no_tools_state_def)

end
